theory Spec2Isabelle
  imports Complex_Main
begin

section \<open>Python values\<close>

text \<open>
  The nutrition core of FitGenix (\<^verbatim>\<open>app/nutrition.py\<close>, \<^verbatim>\<open>app/meals.py\<close>) is
  dynamically typed: every attribute of a user or a meal and every signal of the
  lifestyle score may hold \<^verbatim>\<open>None\<close>, a number, a string or any other object.
  Values are therefore a datatype, and every operation that can raise returns a sum
  whose left side is the exception.
\<close>

datatype py_error =
  TypeError | ValueError | AttributeError | IndexError | ZeroDivisionError | OverflowError
  | RequestError

subsection \<open>Floats\<close>

text \<open>
  A float is a finite number, an infinity or \<^verbatim>\<open>nan\<close>. Comparison and arithmetic follow
  IEEE 754 on the special values: every comparison with \<^verbatim>\<open>nan\<close> is false, and
  \<^verbatim>\<open>inf - inf\<close>, \<^verbatim>\<open>inf * 0\<close> and \<^verbatim>\<open>inf / inf\<close> are \<^verbatim>\<open>nan\<close>. On finite operands
  arithmetic is exact: rounding to 53 bits, and overflow of a finite result to an
  infinity, are not modelled.
\<close>

datatype pyfloat = Fin real | PosInf | NegInf | NaN

instantiation pyfloat :: "{ord, plus, minus, times, uminus}"
begin

fun less_eq_pyfloat :: "pyfloat \<Rightarrow> pyfloat \<Rightarrow> bool" where
  "less_eq_pyfloat NaN y = False"
| "less_eq_pyfloat x NaN = False"
| "less_eq_pyfloat NegInf y = True"
| "less_eq_pyfloat x PosInf = True"
| "less_eq_pyfloat PosInf y = False"
| "less_eq_pyfloat x NegInf = False"
| "less_eq_pyfloat (Fin a) (Fin b) = (a \<le> b)"

fun less_pyfloat :: "pyfloat \<Rightarrow> pyfloat \<Rightarrow> bool" where
  "less_pyfloat NaN y = False"
| "less_pyfloat x NaN = False"
| "less_pyfloat PosInf y = False"
| "less_pyfloat x NegInf = False"
| "less_pyfloat NegInf y = True"
| "less_pyfloat x PosInf = True"
| "less_pyfloat (Fin a) (Fin b) = (a < b)"

fun uminus_pyfloat :: "pyfloat \<Rightarrow> pyfloat" where
  "uminus_pyfloat (Fin a) = Fin (- a)"
| "uminus_pyfloat PosInf = NegInf"
| "uminus_pyfloat NegInf = PosInf"
| "uminus_pyfloat NaN = NaN"

fun plus_pyfloat :: "pyfloat \<Rightarrow> pyfloat \<Rightarrow> pyfloat" where
  "plus_pyfloat NaN y = NaN"
| "plus_pyfloat x NaN = NaN"
| "plus_pyfloat PosInf NegInf = NaN"
| "plus_pyfloat NegInf PosInf = NaN"
| "plus_pyfloat PosInf y = PosInf"
| "plus_pyfloat x PosInf = PosInf"
| "plus_pyfloat NegInf y = NegInf"
| "plus_pyfloat x NegInf = NegInf"
| "plus_pyfloat (Fin a) (Fin b) = Fin (a + b)"

definition minus_pyfloat :: "pyfloat \<Rightarrow> pyfloat \<Rightarrow> pyfloat" where
  "minus_pyfloat x y = x + (- y)"

text \<open>The product of an infinity and a finite factor: its sign, or \<^verbatim>\<open>nan\<close> at 0.\<close>

fun times_pyfloat :: "pyfloat \<Rightarrow> pyfloat \<Rightarrow> pyfloat" where
  "times_pyfloat NaN y = NaN"
| "times_pyfloat x NaN = NaN"
| "times_pyfloat (Fin a) (Fin b) = Fin (a * b)"
| "times_pyfloat (Fin a) PosInf = (if a = 0 then NaN else if 0 < a then PosInf else NegInf)"
| "times_pyfloat (Fin a) NegInf = (if a = 0 then NaN else if 0 < a then NegInf else PosInf)"
| "times_pyfloat PosInf (Fin b) = (if b = 0 then NaN else if 0 < b then PosInf else NegInf)"
| "times_pyfloat NegInf (Fin b) = (if b = 0 then NaN else if 0 < b then NegInf else PosInf)"
| "times_pyfloat PosInf PosInf = PosInf"
| "times_pyfloat NegInf NegInf = PosInf"
| "times_pyfloat PosInf NegInf = NegInf"
| "times_pyfloat NegInf PosInf = NegInf"

instance ..

end

text \<open>\<^verbatim>\<open>x / y\<close> on floats raises on a zero divisor, whatever the dividend.\<close>

fun fl_div :: "pyfloat \<Rightarrow> pyfloat \<Rightarrow> py_error + pyfloat" where
  "fl_div x (Fin b) =
     (if b = 0 then Inl ZeroDivisionError
      else case x of
        Fin a \<Rightarrow> Inr (Fin (a / b))
      | PosInf \<Rightarrow> Inr (if 0 < b then PosInf else NegInf)
      | NegInf \<Rightarrow> Inr (if 0 < b then NegInf else PosInf)
      | NaN \<Rightarrow> Inr NaN)"
| "fl_div (Fin a) PosInf = Inr (Fin 0)"
| "fl_div (Fin a) NegInf = Inr (Fin 0)"
| "fl_div x y = Inr NaN"

text \<open>\<^verbatim>\<open>min(a, b)\<close> and \<^verbatim>\<open>max(a, b)\<close> keep their first argument unless the second is
  strictly smaller, or greater: with a \<^verbatim>\<open>nan\<close> second argument the first one is returned.\<close>

definition py_min :: "pyfloat \<Rightarrow> pyfloat \<Rightarrow> pyfloat" where
  "py_min a b = (if b < a then b else a)"

definition py_max :: "pyfloat \<Rightarrow> pyfloat \<Rightarrow> pyfloat" where
  "py_max a b = (if a < b then b else a)"

text \<open>\<^verbatim>\<open>round(x, ndigits)\<close> on exact values: to the nearest multiple of
  \<open>10\<^sup>-\<^sup>n\<close>, a tie going to the even neighbour; the special values are returned as
  they are.\<close>

definition round_half_even :: "real \<Rightarrow> int" where
  "round_half_even x =
     (let f = \<lfloor>x\<rfloor>; d = x - of_int f
      in if d < 1 / 2 then f
         else if 1 / 2 < d then f + 1
         else if even f then f else f + 1)"

fun py_round :: "pyfloat \<Rightarrow> nat \<Rightarrow> pyfloat" where
  "py_round (Fin x) ndigits = Fin (of_int (round_half_even (x * 10 ^ ndigits)) / 10 ^ ndigits)"
| "py_round x ndigits = x"

text \<open>\<^verbatim>\<open>float(i)\<close> on an integer: \<^verbatim>\<open>OverflowError\<close> beyond the range of a double,
  which ends where rounding reaches \<open>2\<^sup>1\<^sup>0\<^sup>2\<^sup>4\<close>; within the range the
  conversion is taken as exact.\<close>

definition float_of_int :: "int \<Rightarrow> py_error + pyfloat" where
  "float_of_int i =
     (if \<bar>i\<bar> < 2 ^ 1024 - 2 ^ 970 then Inr (Fin (of_int i)) else Inl OverflowError)"

subsection \<open>Strings\<close>

text \<open>
  A Python string is a sequence of Unicode code points. \<open>str_of\<close> gives the code points
  of an ASCII literal of the source. The whitespace \<^verbatim>\<open>str.strip()\<close> removes is the set
  \<^verbatim>\<open>str.isspace()\<close> accepts.
\<close>

type_synonym pystr = "nat list"

definition str_of :: "string \<Rightarrow> pystr" where
  "str_of s = map of_char s"

definition whitespace :: "nat list" where
  "whitespace =
     [0x09, 0x0A, 0x0B, 0x0C, 0x0D, 0x1C, 0x1D, 0x1E, 0x1F, 0x20, 0x85, 0xA0, 0x1680,
      0x2000, 0x2001, 0x2002, 0x2003, 0x2004, 0x2005, 0x2006, 0x2007, 0x2008, 0x2009,
      0x200A, 0x2028, 0x2029, 0x202F, 0x205F, 0x3000]"

definition py_isspace :: "nat \<Rightarrow> bool" where
  "py_isspace c = (c \<in> set whitespace)"

definition py_strip :: "pystr \<Rightarrow> pystr" where
  "py_strip s = rev (dropWhile py_isspace (rev (dropWhile py_isspace s)))"

text \<open>The built-ins \<^verbatim>\<open>float\<close> on a string and \<^verbatim>\<open>str.lower\<close> are parameters: the
  first gives \<open>None\<close> where the built-in raises \<^verbatim>\<open>ValueError\<close>. Every theorem holds for
  whatever the built-ins do.\<close>

type_synonym float_parser = "pystr \<Rightarrow> pyfloat option"

type_synonym str_lower = "pystr \<Rightarrow> pystr"

subsection \<open>Values\<close>

datatype pyval =
    PNone
  | PBool bool
  | PInt int
  | PFloat pyfloat
  | PStr pystr
  | PDate int int int
  | PList "pyval list"
  | PDict "(pystr \<times> pyval) list"

text \<open>\<open>PDate y m d\<close> is a \<^verbatim>\<open>datetime.date\<close>; its year lies between 1 and 9999.
  Truth value testing, as \<^verbatim>\<open>if x\<close>, \<^verbatim>\<open>not x\<close> and \<^verbatim>\<open>x or y\<close> use it;
  \<^verbatim>\<open>nan\<close> is true.\<close>

fun truthy :: "pyval \<Rightarrow> bool" where
  "truthy PNone = False"
| "truthy (PBool b) = b"
| "truthy (PInt i) = (i \<noteq> 0)"
| "truthy (PFloat x) = (x \<noteq> Fin 0)"
| "truthy (PStr s) = (s \<noteq> [])"
| "truthy (PDate y m d) = True"
| "truthy (PList xs) = (xs \<noteq> [])"
| "truthy (PDict kvs) = (kvs \<noteq> [])"

definition py_or :: "pyval \<Rightarrow> pyval \<Rightarrow> pyval" where
  "py_or a b = (if truthy a then a else b)"

text \<open>A number as an operand of float arithmetic: an integer is converted.\<close>

fun py_number :: "pyval \<Rightarrow> py_error + pyfloat" where
  "py_number (PBool b) = Inr (Fin (if b then 1 else 0))"
| "py_number (PInt i) = float_of_int i"
| "py_number (PFloat x) = Inr x"
| "py_number v = Inl TypeError"

text \<open>The built-in \<^verbatim>\<open>float\<close>.\<close>

fun py_float :: "float_parser \<Rightarrow> pyval \<Rightarrow> py_error + pyfloat" where
  "py_float pf PNone = Inl TypeError"
| "py_float pf (PBool b) = Inr (Fin (if b then 1 else 0))"
| "py_float pf (PInt i) = float_of_int i"
| "py_float pf (PFloat x) = Inr x"
| "py_float pf (PStr s) = (case pf s of None \<Rightarrow> Inl ValueError | Some x \<Rightarrow> Inr x)"
| "py_float pf (PDate y m d) = Inl TypeError"
| "py_float pf (PList xs) = Inl TypeError"
| "py_float pf (PDict kvs) = Inl TypeError"

text \<open>\<^verbatim>\<open>v <= k\<close> for an integer literal \<open>k\<close>: integers compare exactly, and only
  numbers compare at all.\<close>

fun py_le_int :: "pyval \<Rightarrow> int \<Rightarrow> py_error + bool" where
  "py_le_int (PBool b) k = Inr ((if b then 1 else 0) \<le> k)"
| "py_le_int (PInt i) k = Inr (i \<le> k)"
| "py_le_int (PFloat x) k = Inr (x \<le> Fin (of_int k))"
| "py_le_int v k = Inl TypeError"

text \<open>\<^verbatim>\<open>a / b\<close> with a float divisor.\<close>

definition py_truediv :: "pyval \<Rightarrow> pyfloat \<Rightarrow> py_error + pyfloat" where
  "py_truediv a b = (case py_number a of Inl e \<Rightarrow> Inl e | Inr x \<Rightarrow> fl_div x b)"

section \<open>Lifestyle score\<close>

text \<open>The inner function \<^verbatim>\<open>score_range\<close> of \<^verbatim>\<open>compute_lifestyle_points\<close>. Only the
  conversion stands in its \<^verbatim>\<open>try\<close>; the bounds are the literals of the call sites.\<close>

definition score_range ::
  "float_parser \<Rightarrow> pyval \<Rightarrow> real \<Rightarrow> real \<Rightarrow> real \<Rightarrow> py_error + pyfloat" where
  "score_range pf val low mid high =
     (case py_float pf val of
        Inl e \<Rightarrow> Inr (Fin 0)
      | Inr v \<Rightarrow>
          if v \<le> Fin low \<or> Fin high \<le> v then Inr (Fin 0)
          else if v = Fin mid then Inr (Fin 1)
          else if v < Fin mid then fl_div (v - Fin low) (Fin mid - Fin low)
          else fl_div (Fin high - v) (Fin high - Fin mid))"

text \<open>The local variables of \<^verbatim>\<open>compute_lifestyle_points\<close>, one definition each.
  Only \<^verbatim>\<open>burn_score\<close> converts outside a \<^verbatim>\<open>try\<close>.\<close>

definition burn_score :: "float_parser \<Rightarrow> pyval \<Rightarrow> py_error + pyfloat" where
  "burn_score pf calories_burned =
     (case py_float pf (py_or calories_burned (PInt 0)) of
        Inl e \<Rightarrow> Inl e
      | Inr b \<Rightarrow>
          (case fl_div b (Fin 400) of
             Inl e \<Rightarrow> Inl e
           | Inr q \<Rightarrow> Inr (py_min (Fin 1) q)))"

definition sleep_score :: "float_parser \<Rightarrow> pyval \<Rightarrow> py_error + pyfloat" where
  "sleep_score pf sleep_hours =
     score_range pf (py_or sleep_hours (PFloat (Fin 0))) 4 7.5 9.5"

definition meal_interval_score :: "float_parser \<Rightarrow> pyval \<Rightarrow> py_error + pyfloat" where
  "meal_interval_score pf avg_meal_interval_hours =
     score_range pf (py_or avg_meal_interval_hours (PFloat (Fin 3.5))) 0.5 3.5 6"

definition cal_ratio_try :: "float_parser \<Rightarrow> pyval \<Rightarrow> pyval \<Rightarrow> py_error + pyfloat" where
  "cal_ratio_try pf calories_intake target_calories =
     (if \<not> truthy target_calories then Inr (Fin 1)
      else case py_le_int target_calories 0 of
             Inl e \<Rightarrow> Inl e
           | Inr True \<Rightarrow> Inr (Fin 1)
           | Inr False \<Rightarrow>
               (case py_float pf target_calories of
                  Inl e \<Rightarrow> Inl e
                | Inr t \<Rightarrow> py_truediv (py_or calories_intake (PFloat (Fin 0))) t))"

definition cal_ratio :: "float_parser \<Rightarrow> pyval \<Rightarrow> pyval \<Rightarrow> pyfloat" where
  "cal_ratio pf calories_intake target_calories =
     (case cal_ratio_try pf calories_intake target_calories of
        Inl e \<Rightarrow> Fin 1
      | Inr r \<Rightarrow> r)"

definition cal_score :: "float_parser \<Rightarrow> pyval \<Rightarrow> pyval \<Rightarrow> py_error + pyfloat" where
  "cal_score pf calories_intake target_calories =
     score_range pf (PFloat (cal_ratio pf calories_intake target_calories)) 0.6 1 1.3"

definition bpm_score :: "float_parser \<Rightarrow> pyval \<Rightarrow> py_error + pyfloat" where
  "bpm_score pf avg_bpm = score_range pf (py_or avg_bpm (PInt 60)) 40 64 86"

definition compute_lifestyle_points ::
  "float_parser \<Rightarrow> pyval \<Rightarrow> pyval \<Rightarrow> pyval \<Rightarrow> pyval \<Rightarrow> pyval \<Rightarrow> pyval
     \<Rightarrow> py_error + pyfloat" where
  "compute_lifestyle_points pf calories_burned sleep_hours avg_meal_interval_hours
       calories_intake target_calories avg_bpm =
     (case burn_score pf calories_burned of Inl e \<Rightarrow> Inl e | Inr burn \<Rightarrow>
     (case sleep_score pf sleep_hours of Inl e \<Rightarrow> Inl e | Inr sleep \<Rightarrow>
     (case meal_interval_score pf avg_meal_interval_hours of Inl e \<Rightarrow> Inl e | Inr meal \<Rightarrow>
     (case cal_score pf calories_intake target_calories of Inl e \<Rightarrow> Inl e | Inr cal \<Rightarrow>
     (case bpm_score pf avg_bpm of Inl e \<Rightarrow> Inl e | Inr bpm \<Rightarrow>
        (let total = Fin 0.28 * burn + Fin 0.25 * sleep + Fin 0.18 * meal
                       + Fin 0.20 * cal + Fin 0.09 * bpm
         in Inr (py_round (total * Fin 100) 2)))))))"

section \<open>Objects and the environment\<close>

text \<open>
  A user or a meal is an object: a finite map from attribute names to values.
  \<^verbatim>\<open>getattr(o, name, default)\<close> never raises; \<^verbatim>\<open>o.name\<close> raises \<^verbatim>\<open>AttributeError\<close>
  when the attribute is missing.
\<close>

type_synonym pyobj = "string \<Rightarrow> pyval option"

definition getattr :: "pyobj \<Rightarrow> string \<Rightarrow> pyval \<Rightarrow> pyval" where
  "getattr obj name dflt = (case obj name of None \<Rightarrow> dflt | Some v \<Rightarrow> v)"

definition attr :: "pyobj \<Rightarrow> string \<Rightarrow> py_error + pyval" where
  "attr obj name = (case obj name of None \<Rightarrow> Inl AttributeError | Some v \<Rightarrow> Inr v)"

text \<open>\<^verbatim>\<open>d.get(key, default)\<close>: only a dict has the method. The keys of a dict are
  distinct.\<close>

fun dict_get :: "pyval \<Rightarrow> pystr \<Rightarrow> pyval \<Rightarrow> py_error + pyval" where
  "dict_get (PDict kvs) key dflt =
     Inr (case map_of kvs key of None \<Rightarrow> dflt | Some v \<Rightarrow> v)"
| "dict_get v key dflt = Inl AttributeError"

text \<open>A file that code reads at a fixed path: missing, unreadable (opening or
  decoding raises), or holding a decoded value.\<close>

datatype 'a disk_file = NoFile | Unreadable | Contents 'a

section \<open>Target calories\<close>

text \<open>
  The pickled model exposes \<^verbatim>\<open>predict(X)\<close>, which returns a sequence or raises.
  The pickle holds either the model itself or a dict that may have the key
  \<^verbatim>\<open>"model"\<close>. \<^verbatim>\<open>_model_cache\<close> is the module's global, passed in and out.
  A model, once loaded, is a true value.
\<close>

type_synonym model = "pyval list list \<Rightarrow> py_error + pyval list"

datatype pickle = PickleDict "model option" | PickleObject model

fun load_target_model :: "pickle disk_file \<Rightarrow> model option \<Rightarrow> model option \<times> model option" where
  "load_target_model MODEL_PATH (Some cached) = (Some cached, Some cached)"
| "load_target_model NoFile None = (None, None)"
| "load_target_model Unreadable None = (None, None)"
| "load_target_model (Contents (PickleDict m)) None = (m, m)"
| "load_target_model (Contents (PickleObject m)) None = (Some m, Some m)"

text \<open>The conditional expression that both \<^verbatim>\<open>predict_target_from_model\<close> and
  \<^verbatim>\<open>compute_bmr\<close> use for the age; \<open>today_year\<close> is \<^verbatim>\<open>date.today().year\<close>.\<close>

definition age_expr :: "int \<Rightarrow> pyobj \<Rightarrow> py_error + int" where
  "age_expr today_year user =
     (if truthy (getattr user ''birth_date'' PNone) then
        (case attr user ''birth_date'' of
           Inl e \<Rightarrow> Inl e
         | Inr (PDate y m d) \<Rightarrow> Inr (today_year - y)
         | Inr other \<Rightarrow> Inl AttributeError)
      else Inr 30)"

definition predict_target_from_model ::
  "float_parser \<Rightarrow> int \<Rightarrow> pickle disk_file \<Rightarrow> model option \<Rightarrow> pyobj
     \<Rightarrow> (py_error + pyfloat option) \<times> model option" where
  "predict_target_from_model pf today_year MODEL_PATH cache user =
     (case load_target_model MODEL_PATH cache of
        (None, cache') \<Rightarrow> (Inr None, cache')
      | (Some model, cache') \<Rightarrow>
          (let age = (case age_expr today_year user of Inl e \<Rightarrow> 30 | Inr a \<Rightarrow> a);
               sex = (if getattr user ''sex'' (PStr (str_of ''male'')) = PStr (str_of ''male'')
                      then 1 else 0)
           in case py_float pf (py_or (getattr user ''height_cm'' (PInt 165)) (PInt 165)) of
                Inl e \<Rightarrow> (Inl e, cache')
              | Inr height_cm \<Rightarrow>
             (case py_float pf (py_or (getattr user ''weight_kg'' (PInt 70)) (PInt 70)) of
                Inl e \<Rightarrow> (Inl e, cache')
              | Inr weight_kg \<Rightarrow>
             (case py_float pf
                     (py_or (getattr user ''activity_multiplier'' (PFloat (Fin 1.3)))
                            (PFloat (Fin 1.3))) of
                Inl e \<Rightarrow> (Inl e, cache')
              | Inr activity \<Rightarrow>
                  (let goal_raw = getattr user ''goal'' (PStr (str_of ''maintain''));
                       goal = (if goal_raw = PStr (str_of ''lose'') then - 1
                               else if goal_raw = PStr (str_of ''gain'') then 1 else 0);
                       X = [[PInt age, PInt sex, PFloat height_cm, PFloat weight_kg,
                             PFloat activity, PInt goal]]
                   in (Inr (case model X of
                              Inl e \<Rightarrow> None
                            | Inr [] \<Rightarrow> None
                            | Inr (p # rest) \<Rightarrow>
                                (case py_float pf p of Inl e \<Rightarrow> None | Inr r \<Rightarrow> Some r)),
                       cache'))))))"

text \<open>The body of the \<^verbatim>\<open>try\<close> of \<^verbatim>\<open>compute_bmr\<close>. The year of a date lies between 1
  and 9999, so \<^verbatim>\<open>5 * age\<close> converts to a float as it is.\<close>

definition compute_bmr_try :: "float_parser \<Rightarrow> int \<Rightarrow> pyobj \<Rightarrow> py_error + pyfloat" where
  "compute_bmr_try pf today_year user =
     (case py_float pf (py_or (getattr user ''weight_kg'' (PInt 70)) (PInt 70)) of
        Inl e \<Rightarrow> Inl e
      | Inr weight \<Rightarrow>
     (case py_float pf (py_or (getattr user ''height_cm'' (PInt 170)) (PInt 170)) of
        Inl e \<Rightarrow> Inl e
      | Inr height \<Rightarrow>
     (case age_expr today_year user of
        Inl e \<Rightarrow> Inl e
      | Inr age \<Rightarrow>
          (let sex = getattr user ''sex'' (PStr (str_of ''male''));
               bmr = (if sex = PStr (str_of ''male'')
                      then Fin 10 * weight + Fin 6.25 * height - Fin (of_int (5 * age)) + Fin 5
                      else Fin 10 * weight + Fin 6.25 * height - Fin (of_int (5 * age))
                             - Fin 161)
           in Inr (py_max (Fin 800) bmr)))))"

definition compute_bmr :: "float_parser \<Rightarrow> int \<Rightarrow> pyobj \<Rightarrow> pyfloat" where
  "compute_bmr pf today_year user =
     (case compute_bmr_try pf today_year user of Inl e \<Rightarrow> Fin 1600 | Inr bmr \<Rightarrow> bmr)"

definition mapping :: "(pystr \<times> real) list" where
  "mapping = [(str_of ''sedentary'', 1.2), (str_of ''light'', 1.375),
              (str_of ''moderate'', 1.55), (str_of ''active'', 1.725),
              (str_of ''very_active'', 1.9)]"

text \<open>\<^verbatim>\<open>mapping.get(level, 1.2)\<close> hashes its key: a list or a dict raises.\<close>

fun activity_multiplier_from_level :: "pyval \<Rightarrow> py_error + pyval" where
  "activity_multiplier_from_level (PStr level) =
     Inr (PFloat (Fin (case map_of mapping level of None \<Rightarrow> 1.2 | Some m \<Rightarrow> m)))"
| "activity_multiplier_from_level (PList xs) = Inl TypeError"
| "activity_multiplier_from_level (PDict kvs) = Inl TypeError"
| "activity_multiplier_from_level level = Inr (PFloat (Fin 1.2))"

text \<open>The first \<^verbatim>\<open>try\<close> block of \<^verbatim>\<open>compute_daily_targets\<close>: \<open>Some t\<close> when it
  returns, \<open>None\<close> when it falls through (attribute falsy, or the conversion raised).\<close>

definition target_override :: "float_parser \<Rightarrow> pyobj \<Rightarrow> pyfloat option" where
  "target_override pf user =
     (if truthy (getattr user ''target_calories'' PNone) then
        (case attr user ''target_calories'' of
           Inl e \<Rightarrow> None
         | Inr v \<Rightarrow> (case py_float pf v of Inl e \<Rightarrow> None | Inr t \<Rightarrow> Some t))
      else None)"

text \<open>\<^verbatim>\<open>max(1000, min(4500, target))\<close>: \<^verbatim>\<open>min\<close> and \<^verbatim>\<open>max\<close> return one of their
  arguments, so a clamped result is the integer bound.\<close>

definition clamp_target :: "pyfloat \<Rightarrow> pyval" where
  "clamp_target target =
     (let m = (if target < Fin 4500 then PFloat target else PInt 4500)
      in case m of
           PFloat x \<Rightarrow> if Fin 1000 < x then m else PInt 1000
         | other \<Rightarrow> m)"

definition formula_target :: "float_parser \<Rightarrow> int \<Rightarrow> pyobj \<Rightarrow> py_error + pyval" where
  "formula_target pf today_year user =
     (let bmr = compute_bmr pf today_year user;
          explicit = getattr user ''activity_multiplier'' PNone
      in case (if truthy explicit then Inr explicit
               else activity_multiplier_from_level
                      (getattr user ''activity_level'' (PStr (str_of ''sedentary'')))) of
           Inl e \<Rightarrow> Inl e
         | Inr mv \<Rightarrow>
             (let multiplier = (case py_float pf mv of Inl e \<Rightarrow> Fin 1.3 | Inr m \<Rightarrow> m);
                  target = bmr * multiplier;
                  goal = getattr user ''goal'' (PStr (str_of ''maintain''));
                  target = (if goal = PStr (str_of ''lose'') then target - Fin 300
                            else if goal = PStr (str_of ''gain'') then target + Fin 300
                            else target);
                  target = clamp_target target
              in Inr (PDict [(str_of ''target'', target),
                             (str_of ''target_calories'', target)])))"

definition compute_daily_targets ::
  "float_parser \<Rightarrow> int \<Rightarrow> pickle disk_file \<Rightarrow> model option \<Rightarrow> pyobj
     \<Rightarrow> (py_error + pyval) \<times> model option" where
  "compute_daily_targets pf today_year MODEL_PATH cache user =
     (case target_override pf user of
        Some t \<Rightarrow>
          (Inr (PDict [(str_of ''target'', PFloat t), (str_of ''target_calories'', PFloat t)]),
           cache)
      | None \<Rightarrow>
          (case predict_target_from_model pf today_year MODEL_PATH cache user of
             (Inl e, cache') \<Rightarrow> (Inl e, cache')
           | (Inr None, cache') \<Rightarrow> (formula_target pf today_year user, cache')
           | (Inr (Some model_pred), cache') \<Rightarrow>
               if model_pred \<noteq> Fin 0
               then (Inr (PDict [(str_of ''target'', PFloat model_pred),
                                 (str_of ''target_calories'', PFloat model_pred)]),
                     cache')
               else (formula_target pf today_year user, cache')))"

section \<open>Nutrition lookup\<close>

text \<open>
  The outside world of a lookup: the process environment, the HTTP client
  (\<^verbatim>\<open>requests.get(url, params, headers, timeout)\<close>, which returns a response or raises)
  and the JSON document at \<^verbatim>\<open>instance/indian_nutrition.json\<close>. A response carries its
  status code and what \<^verbatim>\<open>r.json()\<close> gives. Every source a lookup touches is logged, in
  order, so that "without attempting a source" is a statement about the log.
\<close>

type_synonym environ = "string \<Rightarrow> pystr option"

record response =
  status_code :: int
  json :: "py_error + pyval"

type_synonym requests = "string \<Rightarrow> (string \<times> pyval) list \<Rightarrow> (string \<times> pyval) list
                           \<Rightarrow> py_error + response"

datatype attempt = PrimaryApi | SecondaryApi | LocalTable

definition environ_get :: "environ \<Rightarrow> string \<Rightarrow> pyval" where
  "environ_get env name = (case env name of None \<Rightarrow> PNone | Some v \<Rightarrow> PStr v)"

text \<open>\<^verbatim>\<open>sum(float(i.get(key, 0) or 0) for i in items)\<close>, from the left; \<open>acc\<close> is the
  running sum.\<close>

fun sum_items :: "float_parser \<Rightarrow> pystr \<Rightarrow> pyfloat \<Rightarrow> pyval list \<Rightarrow> py_error + pyfloat" where
  "sum_items pf key acc [] = Inr acc"
| "sum_items pf key acc (i # items) =
     (case dict_get i key (PInt 0) of
        Inl e \<Rightarrow> Inl e
      | Inr v \<Rightarrow>
          (case py_float pf (py_or v (PInt 0)) of
             Inl e \<Rightarrow> Inl e
           | Inr x \<Rightarrow> sum_items pf key (acc + x) items))"

text \<open>What the body of the CalorieNinjas \<^verbatim>\<open>try\<close> block does with a response:
  \<open>Inr (Some d)\<close> is \<^verbatim>\<open>return d\<close>, \<open>Inr None\<close> leaves the block, \<open>Inl e\<close> raises.\<close>

definition calorieninjas_items :: "float_parser \<Rightarrow> response \<Rightarrow> py_error + pyval option" where
  "calorieninjas_items pf r =
     (if status_code r = 200 then
        (case json r of
           Inl e \<Rightarrow> Inl e
         | Inr data \<Rightarrow>
             (case dict_get data (str_of ''items'') (PList []) of
                Inl e \<Rightarrow> Inl e
              | Inr items \<Rightarrow>
                  if truthy items then
                    (case items of
                       PList xs \<Rightarrow>
                         (case sum_items pf (str_of ''calories'') (Fin 0) xs of
                            Inl e \<Rightarrow> Inl e | Inr kcal \<Rightarrow>
                         (case sum_items pf (str_of ''protein_g'') (Fin 0) xs of
                            Inl e \<Rightarrow> Inl e | Inr prot \<Rightarrow>
                         (case sum_items pf (str_of ''carbohydrates_total_g'') (Fin 0) xs of
                            Inl e \<Rightarrow> Inl e | Inr carbs \<Rightarrow>
                         (case sum_items pf (str_of ''fat_total_g'') (Fin 0) xs of
                            Inl e \<Rightarrow> Inl e | Inr fat \<Rightarrow>
                            Inr (Some (PDict
                              [(str_of ''kcal'', PFloat kcal), (str_of ''protein_g'', PFloat prot),
                               (str_of ''carbs_g'', PFloat carbs), (str_of ''fat_g'', PFloat fat),
                               (str_of ''source'', PStr (str_of ''calorieninjas''))]))))))
                     | other \<Rightarrow> Inl TypeError)
                  else Inr None))
      else Inr None)"

text \<open>\<^verbatim>\<open>float(tot.get(code, {}).get("quantity", 0) or 0)\<close>.\<close>

definition nutrient_quantity :: "float_parser \<Rightarrow> pyval \<Rightarrow> pystr \<Rightarrow> py_error + pyfloat" where
  "nutrient_quantity pf tot code =
     (case dict_get tot code (PDict []) of
        Inl e \<Rightarrow> Inl e
      | Inr n \<Rightarrow>
          (case dict_get n (str_of ''quantity'') (PInt 0) of
             Inl e \<Rightarrow> Inl e
           | Inr q \<Rightarrow> py_float pf (py_or q (PInt 0))))"

definition edamam_data :: "float_parser \<Rightarrow> response \<Rightarrow> py_error + pyval option" where
  "edamam_data pf r =
     (if status_code r = 200 then
        (case json r of
           Inl e \<Rightarrow> Inl e
         | Inr data \<Rightarrow>
             (case dict_get data (str_of ''calories'') (PInt 0) of Inl e \<Rightarrow> Inl e | Inr c \<Rightarrow>
             (case py_float pf (py_or c (PInt 0)) of Inl e \<Rightarrow> Inl e | Inr kcal \<Rightarrow>
             (case dict_get data (str_of ''totalNutrients'') (PDict []) of
                Inl e \<Rightarrow> Inl e | Inr t \<Rightarrow>
               (let tot = py_or t (PDict []) in
             (case nutrient_quantity pf tot (str_of ''PROCNT'') of Inl e \<Rightarrow> Inl e | Inr prot \<Rightarrow>
             (case nutrient_quantity pf tot (str_of ''CHOCDF'') of Inl e \<Rightarrow> Inl e | Inr carbs \<Rightarrow>
             (case nutrient_quantity pf tot (str_of ''FAT'') of Inl e \<Rightarrow> Inl e | Inr fat \<Rightarrow>
                Inr (Some (PDict
                  [(str_of ''kcal'', PFloat kcal), (str_of ''protein_g'', PFloat prot),
                   (str_of ''carbs_g'', PFloat carbs), (str_of ''fat_g'', PFloat fat),
                   (str_of ''source'', PStr (str_of ''edamam''))]))))))))))
      else Inr None)"

text \<open>The local table: \<^verbatim>\<open>key in db\<close> and \<^verbatim>\<open>db[key]\<close> on the decoded document.
  A document that is not an object either raises or has no such key; both end in
  \<^verbatim>\<open>return None\<close>.\<close>

definition indian_db_record :: "float_parser \<Rightarrow> pyval \<Rightarrow> pystr \<Rightarrow> py_error + pyval option" where
  "indian_db_record pf db key =
     (case db of
        PDict kvs \<Rightarrow>
          (case map_of kvs key of
             None \<Rightarrow> Inr None
           | Some rec \<Rightarrow>
               (case dict_get rec (str_of ''kcal'') (PInt 0) of Inl e \<Rightarrow> Inl e | Inr k \<Rightarrow>
               (case dict_get rec (str_of ''energy_kcal'') (py_or k (PInt 0)) of
                  Inl e \<Rightarrow> Inl e | Inr ek \<Rightarrow>
               (case py_float pf ek of Inl e \<Rightarrow> Inl e | Inr kcal \<Rightarrow>
               (case dict_get rec (str_of ''protein_g'') (PInt 0) of Inl e \<Rightarrow> Inl e | Inr p \<Rightarrow>
               (case py_float pf (py_or p (PInt 0)) of Inl e \<Rightarrow> Inl e | Inr prot \<Rightarrow>
               (case dict_get rec (str_of ''carbs_g'') (PInt 0) of Inl e \<Rightarrow> Inl e | Inr c \<Rightarrow>
               (case py_float pf (py_or c (PInt 0)) of Inl e \<Rightarrow> Inl e | Inr carbs \<Rightarrow>
               (case dict_get rec (str_of ''fat_g'') (PInt 0) of Inl e \<Rightarrow> Inl e | Inr f \<Rightarrow>
               (case py_float pf (py_or f (PInt 0)) of Inl e \<Rightarrow> Inl e | Inr fat \<Rightarrow>
                  Inr (Some (PDict
                    [(str_of ''kcal'', PFloat kcal), (str_of ''protein_g'', PFloat prot),
                     (str_of ''carbs_g'', PFloat carbs), (str_of ''fat_g'', PFloat fat),
                     (str_of ''source'', PStr (str_of ''indian_db''))]))))))))))))
      | other \<Rightarrow> Inl TypeError)"

text \<open>The three stages of \<^verbatim>\<open>lookup_nutrition_text\<close> on the stripped text. Each
  returns what it found (\<open>None\<close>: go on) and the sources it touched. An exception inside
  a stage is swallowed by its \<^verbatim>\<open>except Exception: pass\<close>.\<close>

definition try_calorieninjas ::
  "float_parser \<Rightarrow> environ \<Rightarrow> requests \<Rightarrow> pystr \<Rightarrow> pyval option \<times> attempt list" where
  "try_calorieninjas pf env get text =
     (let api_key = py_or (environ_get env ''CALORIE_NINJAS_KEY'')
                          (environ_get env ''API_NINJAS_KEY'')
      in if truthy api_key then
           (case get ''https://api.calorieninjas.com/v1/nutrition''
                     [(''query'', PStr text)] [(''X-Api-Key'', api_key)] of
              Inl e \<Rightarrow> (None, [PrimaryApi])
            | Inr r \<Rightarrow>
                (case calorieninjas_items pf r of
                   Inl e \<Rightarrow> (None, [PrimaryApi])
                 | Inr found \<Rightarrow> (found, [PrimaryApi])))
         else (None, []))"

definition try_edamam ::
  "float_parser \<Rightarrow> environ \<Rightarrow> requests \<Rightarrow> pystr \<Rightarrow> pyval option \<times> attempt list" where
  "try_edamam pf env get text =
     (let ed_id = environ_get env ''EDAMAM_APP_ID'';
          ed_key = environ_get env ''EDAMAM_APP_KEY''
      in if truthy ed_id \<and> truthy ed_key then
           (case get ''https://api.edamam.com/api/nutrition-data''
                     [(''app_id'', ed_id), (''app_key'', ed_key), (''ingr'', PStr text)] [] of
              Inl e \<Rightarrow> (None, [SecondaryApi])
            | Inr r \<Rightarrow>
                (case edamam_data pf r of
                   Inl e \<Rightarrow> (None, [SecondaryApi])
                 | Inr found \<Rightarrow> (found, [SecondaryApi])))
         else (None, []))"

definition try_indian_db ::
  "float_parser \<Rightarrow> str_lower \<Rightarrow> pyval disk_file \<Rightarrow> pystr \<Rightarrow> pyval option \<times> attempt list" where
  "try_indian_db pf lower indb_path text =
     (case indb_path of
        NoFile \<Rightarrow> (None, [LocalTable])
      | Unreadable \<Rightarrow> (None, [LocalTable])
      | Contents db \<Rightarrow>
          (case indian_db_record pf db (lower text) of
             Inl e \<Rightarrow> (None, [LocalTable])
           | Inr found \<Rightarrow> (found, [LocalTable])))"

definition lookup_nutrition_text ::
  "float_parser \<Rightarrow> str_lower \<Rightarrow> environ \<Rightarrow> requests \<Rightarrow> pyval disk_file \<Rightarrow> pyval
     \<Rightarrow> (py_error + pyval) \<times> attempt list" where
  "lookup_nutrition_text pf lower env get indb_path text =
     (if \<not> truthy text then (Inr PNone, [])
      else case text of
        PStr raw \<Rightarrow>
          (if py_strip raw = [] then (Inr PNone, [])
           else
             (let text = py_strip raw in
              case try_calorieninjas pf env get text of
                (Some d, log1) \<Rightarrow> (Inr d, log1)
              | (None, log1) \<Rightarrow>
                  (case try_edamam pf env get text of
                     (Some d, log2) \<Rightarrow> (Inr d, log1 @ log2)
                   | (None, log2) \<Rightarrow>
                       (case try_indian_db pf lower indb_path text of
                          (Some d, log3) \<Rightarrow> (Inr d, log1 @ log2 @ log3)
                        | (None, log3) \<Rightarrow> (Inr PNone, log1 @ log2 @ log3)))))
      | other \<Rightarrow> (Inl AttributeError, []))"

text \<open>\<^verbatim>\<open>lookup_calories_calorieninjas\<close> of \<^verbatim>\<open>app/meals.py\<close>, the lookup the
  meal-add route calls. \<open>CALORIE_NINJAS_KEY\<close> is the module constant, read from the
  environment at import. The loop adds the four nutrients of each item in turn.\<close>

fun sum_nutrients ::
  "float_parser \<Rightarrow> pyval list \<Rightarrow> pyfloat \<times> pyfloat \<times> pyfloat \<times> pyfloat
     \<Rightarrow> py_error + pyfloat \<times> pyfloat \<times> pyfloat \<times> pyfloat" where
  "sum_nutrients pf [] totals = Inr totals"
| "sum_nutrients pf (item # items) (total_calories, total_protein, total_carbs, total_fat) =
     (case dict_get item (str_of ''calories'') (PFloat (Fin 0)) of Inl e \<Rightarrow> Inl e | Inr c \<Rightarrow>
     (case py_float pf (py_or c (PFloat (Fin 0))) of Inl e \<Rightarrow> Inl e | Inr calories \<Rightarrow>
     (case dict_get item (str_of ''protein_g'') (PFloat (Fin 0)) of Inl e \<Rightarrow> Inl e | Inr p \<Rightarrow>
     (case py_float pf (py_or p (PFloat (Fin 0))) of Inl e \<Rightarrow> Inl e | Inr protein \<Rightarrow>
     (case dict_get item (str_of ''carbohydrates_total_g'') (PFloat (Fin 0)) of
        Inl e \<Rightarrow> Inl e | Inr cb \<Rightarrow>
     (case py_float pf (py_or cb (PFloat (Fin 0))) of Inl e \<Rightarrow> Inl e | Inr carbs \<Rightarrow>
     (case dict_get item (str_of ''fat_total_g'') (PFloat (Fin 0)) of Inl e \<Rightarrow> Inl e | Inr f \<Rightarrow>
     (case py_float pf (py_or f (PFloat (Fin 0))) of Inl e \<Rightarrow> Inl e | Inr fat \<Rightarrow>
        sum_nutrients pf items
          (total_calories + calories, total_protein + protein,
           total_carbs + carbs, total_fat + fat)))))))))"

definition calorieninjas_totals :: "float_parser \<Rightarrow> response \<Rightarrow> py_error + pyval" where
  "calorieninjas_totals pf resp =
     (if status_code resp \<noteq> 200 then Inr PNone
      else case json resp of
        Inl e \<Rightarrow> Inl e
      | Inr data \<Rightarrow>
          (case dict_get data (str_of ''items'') PNone of
             Inl e \<Rightarrow> Inl e
           | Inr got \<Rightarrow>
               (let items = py_or got (PList []) in
                if \<not> truthy items then Inr PNone
                else case items of
                  PList xs \<Rightarrow>
                    (case sum_nutrients pf xs (Fin 0, Fin 0, Fin 0, Fin 0) of
                       Inl e \<Rightarrow> Inl e
                     | Inr (total_calories, total_protein, total_carbs, total_fat) \<Rightarrow>
                         if Fin 0 < total_calories then
                           Inr (PDict [(str_of ''calories'', PFloat total_calories),
                                       (str_of ''protein'', PFloat total_protein),
                                       (str_of ''carbs'', PFloat total_carbs),
                                       (str_of ''fat'', PFloat total_fat)])
                         else Inr PNone)
                | other \<Rightarrow> Inl TypeError)))"

definition lookup_calories_calorieninjas ::
  "float_parser \<Rightarrow> pyval \<Rightarrow> requests \<Rightarrow> pyval \<Rightarrow> pyval" where
  "lookup_calories_calorieninjas pf CALORIE_NINJAS_KEY get query =
     (if \<not> truthy CALORIE_NINJAS_KEY then PNone
      else case get ''https://api.calorieninjas.com/v1/nutrition''
                    [(''query'', query)] [(''X-Api-Key'', CALORIE_NINJAS_KEY)] of
        Inl e \<Rightarrow> PNone
      | Inr resp \<Rightarrow> (case calorieninjas_totals pf resp of Inl e \<Rightarrow> PNone | Inr d \<Rightarrow> d))"

section \<open>Meal flags\<close>

text \<open>The \<^verbatim>\<open>try\<close> block of \<^verbatim>\<open>compute_flags_for_meal\<close>: both conversions succeed or
  the handler resets both.\<close>

definition meal_inputs_try :: "float_parser \<Rightarrow> pyobj \<Rightarrow> py_error + pystr \<times> pyfloat" where
  "meal_inputs_try pf meal =
     (case attr meal ''name'' of
        Inl e \<Rightarrow> Inl e
      | Inr n \<Rightarrow>
          (case py_or n (PStr []) of
             PStr s \<Rightarrow>
               (case py_float pf (py_or (getattr meal ''calories'' (PInt 0)) (PInt 0)) of
                  Inl e \<Rightarrow> Inl e
                | Inr calories \<Rightarrow> Inr (py_strip s, calories))
           | other \<Rightarrow> Inl AttributeError))"

definition compute_flags_for_meal :: "float_parser \<Rightarrow> pyobj \<Rightarrow> bool \<times> string" where
  "compute_flags_for_meal pf meal =
     (let (name, calories) =
            (case meal_inputs_try pf meal of Inl e \<Rightarrow> ([], Fin 0) | Inr nc \<Rightarrow> nc)
      in if name = [] then (True, ''Missing meal name'')
         else if calories \<le> Fin 0 then (True, ''Calories missing or zero'')
         else if Fin 2000 < calories then (True, ''Unusually high calories'')
         else (False, []))"

section \<open>The specification's reading\<close>

text \<open>
  The documented data model, for comparison with the code. A \<open>user_profile\<close> is the
  specification's UserProfile: typed, every field optional where the data model gives a
  default. \<open>as_object\<close> is the object the caller hands to the core for it: an absent
  field is an attribute holding \<^verbatim>\<open>None\<close>.
\<close>

record user_profile =
  profile_birth_date :: "(int \<times> int \<times> int) option"
  profile_sex :: string
  profile_height :: "real option"
  profile_weight :: "real option"
  profile_level :: "string option"
  profile_multiplier :: "real option"
  profile_goal :: string
  profile_override :: "real option"

definition opt_float :: "real option \<Rightarrow> pyval" where
  "opt_float x = (case x of None \<Rightarrow> PNone | Some r \<Rightarrow> PFloat (Fin r))"

definition as_object :: "user_profile \<Rightarrow> pyobj" where
  "as_object p =
     map_of
       [(''birth_date'',
           (case profile_birth_date p of None \<Rightarrow> PNone | Some (y, m, d) \<Rightarrow> PDate y m d)),
        (''sex'', PStr (str_of (profile_sex p))),
        (''height_cm'', opt_float (profile_height p)),
        (''weight_kg'', opt_float (profile_weight p)),
        (''activity_level'',
           (case profile_level p of None \<Rightarrow> PNone | Some l \<Rightarrow> PStr (str_of l))),
        (''activity_multiplier'', opt_float (profile_multiplier p)),
        (''goal'', PStr (str_of (profile_goal p))),
        (''target_calories'', opt_float (profile_override p))]"

text \<open>The estimate in the specification's words: a default stands in for an absent
  field, and for nothing else.\<close>

definition spec_age :: "int \<Rightarrow> user_profile \<Rightarrow> int" where
  "spec_age today_year p =
     (case profile_birth_date p of None \<Rightarrow> 30 | Some (y, m, d) \<Rightarrow> today_year - y)"

definition spec_weight :: "user_profile \<Rightarrow> real" where
  "spec_weight p = (case profile_weight p of None \<Rightarrow> 70 | Some w \<Rightarrow> w)"

definition spec_height :: "user_profile \<Rightarrow> real" where
  "spec_height p = (case profile_height p of None \<Rightarrow> 170 | Some h \<Rightarrow> h)"

text \<open>Mifflin-St Jeor, floored at 800.\<close>

definition spec_bmr :: "int \<Rightarrow> user_profile \<Rightarrow> real" where
  "spec_bmr today_year p =
     max 800
       (10 * spec_weight p + 6.25 * spec_height p - 5 * of_int (spec_age today_year p)
          + (if profile_sex p = ''male'' then 5 else - 161))"

definition spec_level_multiplier :: "string option \<Rightarrow> real" where
  "spec_level_multiplier level =
     (if level = Some ''sedentary'' then 1.2
      else if level = Some ''light'' then 1.375
      else if level = Some ''moderate'' then 1.55
      else if level = Some ''active'' then 1.725
      else if level = Some ''very_active'' then 1.9
      else 1.2)"

definition spec_multiplier :: "user_profile \<Rightarrow> real" where
  "spec_multiplier p =
     (case profile_multiplier p of
        Some m \<Rightarrow> m
      | None \<Rightarrow> spec_level_multiplier (profile_level p))"

definition spec_goal_adjustment :: "string \<Rightarrow> real" where
  "spec_goal_adjustment goal =
     (if goal = ''lose'' then - 300 else if goal = ''gain'' then 300 else 0)"

definition spec_estimate :: "int \<Rightarrow> user_profile \<Rightarrow> real" where
  "spec_estimate today_year p =
     max 1000 (min 4500
       (spec_bmr today_year p * spec_multiplier p + spec_goal_adjustment (profile_goal p)))"

text \<open>The amendment to it: a weight, a height or a multiplier of 0 counts as absent.\<close>

definition zero_as_absent :: "real option \<Rightarrow> real option" where
  "zero_as_absent x = (if x = Some 0 then None else x)"

definition zeros_absent :: "user_profile \<Rightarrow> user_profile" where
  "zeros_absent p =
     p\<lparr>profile_height := zero_as_absent (profile_height p),
       profile_weight := zero_as_absent (profile_weight p),
       profile_multiplier := zero_as_absent (profile_multiplier p)\<rparr>"

text \<open>The feature vector of a prediction, in its fixed order, with the defaults of the
  prediction path.\<close>

definition spec_features :: "int \<Rightarrow> user_profile \<Rightarrow> pyval list" where
  "spec_features today_year p =
     [PInt (spec_age today_year p),
      PInt (if profile_sex p = ''male'' then 1 else 0),
      PFloat (Fin (case profile_height p of None \<Rightarrow> 165 | Some h \<Rightarrow> h)),
      PFloat (Fin (case profile_weight p of None \<Rightarrow> 70 | Some w \<Rightarrow> w)),
      PFloat (Fin (case profile_multiplier p of None \<Rightarrow> 1.3 | Some a \<Rightarrow> a)),
      PInt (if profile_goal p = ''lose'' then - 1 else if profile_goal p = ''gain'' then 1 else 0)]"

text \<open>The triangular score in the specification's words.\<close>

definition spec_score_range :: "real \<Rightarrow> real \<Rightarrow> real \<Rightarrow> real \<Rightarrow> real" where
  "spec_score_range v low mid high =
     (if v \<le> low \<or> high \<le> v then 0
      else if v = mid then 1
      else if v < mid then (v - low) / (mid - low)
      else (high - v) / (high - mid))"

text \<open>MealFlagger's rules, first match wins.\<close>

definition spec_flag :: "pystr \<Rightarrow> pyfloat \<Rightarrow> bool \<times> string" where
  "spec_flag name calories =
     (if list_all py_isspace name then (True, ''Missing meal name'')
      else if calories \<le> Fin 0 then (True, ''Calories missing or zero'')
      else if Fin 2000 < calories then (True, ''Unusually high calories'')
      else (False, []))"

text \<open>A signal that is an infinite float.\<close>

definition infinite_float :: "pyval \<Rightarrow> bool" where
  "infinite_float v = (v = PFloat PosInf \<or> v = PFloat NegInf)"

section \<open>Concrete inputs\<close>

text \<open>A \<^verbatim>\<open>float\<close> that accepts no string at all: every string below is non-numeric.
  A \<^verbatim>\<open>str.lower\<close> for ASCII text.\<close>

definition no_numeric_text :: float_parser where
  "no_numeric_text s = None"

definition lower_ascii :: str_lower where
  "lower_ascii s = map (\<lambda>c. if 65 \<le> c \<and> c \<le> 90 then c + 32 else c) s"

text \<open>The profile of the specification's worked example: 70 kg, 175 cm, born 30 years
  before the current year 2026, male, sedentary, goal maintain.\<close>

definition example_profile :: user_profile where
  "example_profile =
     \<lparr>profile_birth_date = Some (1996, 5, 17), profile_sex = ''male'',
      profile_height = Some 175, profile_weight = Some 70,
      profile_level = Some ''sedentary'', profile_multiplier = None,
      profile_goal = ''maintain'', profile_override = None\<rparr>"

text \<open>Models: one predicts 0, one predicts 5200, one raises during inference.\<close>

definition zero_model :: model where
  "zero_model X = Inr [PFloat (Fin 0)]"

definition steady_model :: model where
  "steady_model X = Inr [PFloat (Fin 5200)]"

definition broken_model :: model where
  "broken_model X = Inl ValueError"

text \<open>A world in which every source is configured: both API keys are set, the primary
  service matches one item of 0 calories, the secondary service reports 52 kcal, and the
  local table knows the food.\<close>

definition all_keys :: environ where
  "all_keys = map_of [(''CALORIE_NINJAS_KEY'', str_of ''k1''), (''EDAMAM_APP_ID'', str_of ''id''),
                      (''EDAMAM_APP_KEY'', str_of ''k2'')]"

definition zero_calorie_service :: requests where
  "zero_calorie_service url params headers =
     (if url = ''https://api.calorieninjas.com/v1/nutrition''
      then Inr \<lparr>status_code = 200,
                json = Inr (PDict [(str_of ''items'',
                  PList [PDict [(str_of ''name'', PStr (str_of ''water'')),
                                (str_of ''calories'', PInt 0)]])])\<rparr>
      else Inr \<lparr>status_code = 200,
                json = Inr (PDict [(str_of ''calories'', PInt 52),
                                   (str_of ''totalNutrients'', PDict [])])\<rparr>)"

definition local_table :: "pyval disk_file" where
  "local_table =
     Contents (PDict [(str_of ''water'', PDict [(str_of ''energy_kcal'', PInt 1)])])"

section \<open>Properties of the lifestyle score\<close>

subsection \<open>Float arithmetic on finite operands\<close>

lemma fin_minus [simp]: "Fin a - Fin b = Fin (a - b)"
  by (simp add: minus_pyfloat_def)

subsection \<open>The triangular score\<close>

lemma spec_score_range_closed_form:
  assumes "low < mid" "mid < high"
  shows "spec_score_range v low mid high =
           max 0 (min ((v - low) / (mid - low)) ((high - v) / (high - mid)))"
proof -
  define up where "up = (v - low) / (mid - low)"
  define down where "down = (high - v) / (high - mid)"
  have dl: "0 < mid - low" and dh: "0 < high - mid" using assms by simp_all
  have up_sign: "up \<le> 0 \<longleftrightarrow> v \<le> low" "0 < up \<longleftrightarrow> low < v"
    using dl by (simp_all add: up_def divide_le_0_iff zero_less_divide_iff)
  have down_sign: "down \<le> 0 \<longleftrightarrow> high \<le> v" "0 < down \<longleftrightarrow> v < high"
    using dh by (simp_all add: down_def divide_le_0_iff zero_less_divide_iff)
  have up_one: "up < 1 \<longleftrightarrow> v < mid" "1 < up \<longleftrightarrow> mid < v" "up = 1 \<longleftrightarrow> v = mid"
    using dl by (auto simp add: up_def)
  have down_one: "down < 1 \<longleftrightarrow> mid < v" "1 < down \<longleftrightarrow> v < mid" "down = 1 \<longleftrightarrow> v = mid"
    using dh by (auto simp add: down_def)
  have code: "spec_score_range v low mid high =
      (if v \<le> low \<or> high \<le> v then 0 else if v = mid then 1 else if v < mid then up else down)"
    by (simp add: spec_score_range_def up_def down_def)
  consider "v \<le> low" | "high \<le> v" | "v = mid" | "low < v" "v < mid" | "mid < v" "v < high"
    by linarith
  then have "spec_score_range v low mid high = max 0 (min up down)"
  proof cases
    case 1
    then have "up \<le> 0" by (simp add: up_sign)
    then have "min up down \<le> 0" by (simp add: min_le_iff_disj)
    then show ?thesis using 1 by (simp add: code max_absorb1)
  next
    case 2
    then have "down \<le> 0" by (simp add: down_sign)
    then have "min up down \<le> 0" by (simp add: min_le_iff_disj)
    then show ?thesis using 2 by (simp add: code max_absorb1)
  next
    case 3
    then have "up = 1" "down = 1" by (simp_all add: up_one down_one)
    moreover have "low < v" "v < high" using 3 assms by simp_all
    ultimately show ?thesis unfolding code using 3 by simp
  next
    case 4
    then have "0 < up" "up < 1" "1 < down" by (simp_all add: up_sign up_one down_one)
    then have "min up down = up" "max 0 up = up" by simp_all
    moreover have "v < high" using 4 assms by simp
    ultimately show ?thesis using 4 by (simp add: code)
  next
    case 5
    then have "0 < down" "down < 1" "1 < up" by (simp_all add: down_sign up_one down_one)
    then have "min up down = down" "max 0 down = down" by simp_all
    moreover have "low < v" using 5 assms by simp
    ultimately show ?thesis using 5 by (simp add: code)
  qed
  then show ?thesis by (simp add: up_def down_def)
qed

lemma spec_score_range_continuous:
  assumes "low < mid" "mid < high"
  shows "continuous_on UNIV (\<lambda>v. spec_score_range v low mid high)"
proof -
  have "continuous_on UNIV
          (\<lambda>v::real. max 0 (min ((v - low) / (mid - low)) ((high - v) / (high - mid))))"
    using assms by (intro continuous_intros) simp_all
  then show ?thesis using assms by (simp add: spec_score_range_closed_form)
qed

lemma spec_score_range_unit:
  assumes "low < mid" "mid < high"
  shows "0 \<le> spec_score_range v low mid high \<and> spec_score_range v low mid high \<le> 1"
proof -
  have "0 \<le> max 0 (min ((v - low) / (mid - low)) ((high - v) / (high - mid)))"
    by simp
  moreover have "max 0 (min ((v - low) / (mid - low)) ((high - v) / (high - mid))) \<le> 1"
  proof (cases "v \<le> mid")
    case True
    then have "(v - low) / (mid - low) \<le> 1" using assms by simp
    then show ?thesis by (simp add: min_le_iff_disj)
  next
    case False
    then have "(high - v) / (high - mid) \<le> 1" using assms by simp
    then show ?thesis by (simp add: min_le_iff_disj)
  qed
  ultimately show ?thesis using assms by (simp add: spec_score_range_closed_form)
qed

lemma spec_score_range_rising:
  assumes "low < mid" "mid < high" "low \<le> v" "v \<le> mid"
  shows "spec_score_range v low mid high = (v - low) / (mid - low)"
  using assms by (auto simp add: spec_score_range_def)

lemma spec_score_range_falling:
  assumes "low < mid" "mid < high" "mid \<le> v" "v \<le> high"
  shows "spec_score_range v low mid high = (high - v) / (high - mid)"
  using assms by (auto simp add: spec_score_range_def)

text \<open>On a finite float the code computes the specification's triangle; no division
  by zero is reached, whatever the bounds.\<close>

lemma score_range_fin:
  "score_range pf (PFloat (Fin v)) low mid high = Inr (Fin (spec_score_range v low mid high))"
  by (auto simp add: score_range_def spec_score_range_def)

lemma score_range_infinite:
  "score_range pf (PFloat PosInf) low mid high = Inr (Fin 0)"
  "score_range pf (PFloat NegInf) low mid high = Inr (Fin 0)"
  by (simp_all add: score_range_def)

lemma score_range_of_float:
  "py_float pf val = Inr v \<Longrightarrow>
     score_range pf val low mid high = score_range pf (PFloat v) low mid high"
  by (simp add: score_range_def)

lemma score_range_of_error:
  "py_float pf val = Inl e \<Longrightarrow> score_range pf val low mid high = Inr (Fin 0)"
  by (simp add: score_range_def)

text \<open>Whatever is converted, unless it is \<^verbatim>\<open>nan\<close>, scores between 0 and 1.\<close>

lemma score_range_unit:
  assumes "low < mid" "mid < high" "py_float pf val \<noteq> Inr NaN"
  shows "\<exists>s. score_range pf val low mid high = Inr (Fin s) \<and> 0 \<le> s \<and> s \<le> 1"
proof (cases "py_float pf val")
  case (Inl e)
  then show ?thesis by (simp add: score_range_of_error)
next
  case (Inr x)
  then have same: "score_range pf val low mid high = score_range pf (PFloat x) low mid high"
    by (rule score_range_of_float)
  show ?thesis
  proof (cases x)
    case (Fin v)
    then show ?thesis
      using same spec_score_range_unit [OF assms(1,2), of v] by (simp add: score_range_fin)
  next
    case PosInf
    then show ?thesis using same by (simp add: score_range_infinite)
  next
    case NegInf
    then show ?thesis using same by (simp add: score_range_infinite)
  next
    case NaN
    then show ?thesis using Inr assms(3) by simp
  qed
qed

text \<open>
  Claim C5. For \<open>low < mid < high\<close>, \<^verbatim>\<open>score_range\<close> is 0 at \<open>low\<close> and at \<open>high\<close>, 1 at
  \<open>mid\<close>, non-decreasing on \<open>[low, mid]\<close> and non-increasing on \<open>[mid, high]\<close>, equal to
  the ramps \<open>(v - low) / (mid - low)\<close> and \<open>(high - v) / (high - mid)\<close> there, 0 at or
  outside the bounds (the infinities included), continuous, and 0 on every input that
  \<^verbatim>\<open>float\<close> rejects, a missing one (\<^verbatim>\<open>None\<close>) included.
\<close>

theorem score_range_triangle:
  assumes "low < mid" "mid < high"
  shows "score_range pf (PFloat (Fin low)) low mid high = Inr (Fin 0)
       \<and> score_range pf (PFloat (Fin high)) low mid high = Inr (Fin 0)
       \<and> score_range pf (PFloat (Fin mid)) low mid high = Inr (Fin 1)
       \<and> (\<forall>a b. low \<le> a \<and> a \<le> b \<and> b \<le> mid \<longrightarrow>
              (\<exists>x y. score_range pf (PFloat (Fin a)) low mid high = Inr (Fin x)
                   \<and> score_range pf (PFloat (Fin b)) low mid high = Inr (Fin y) \<and> x \<le> y))
       \<and> (\<forall>a b. mid \<le> a \<and> a \<le> b \<and> b \<le> high \<longrightarrow>
              (\<exists>x y. score_range pf (PFloat (Fin a)) low mid high = Inr (Fin x)
                   \<and> score_range pf (PFloat (Fin b)) low mid high = Inr (Fin y) \<and> y \<le> x))
       \<and> (\<forall>v. low \<le> v \<and> v \<le> mid \<longrightarrow>
              score_range pf (PFloat (Fin v)) low mid high = Inr (Fin ((v - low) / (mid - low))))
       \<and> (\<forall>v. mid \<le> v \<and> v \<le> high \<longrightarrow>
              score_range pf (PFloat (Fin v)) low mid high = Inr (Fin ((high - v) / (high - mid))))
       \<and> (\<forall>v. v \<le> low \<or> high \<le> v \<longrightarrow>
              score_range pf (PFloat (Fin v)) low mid high = Inr (Fin 0))
       \<and> score_range pf (PFloat PosInf) low mid high = Inr (Fin 0)
       \<and> score_range pf (PFloat NegInf) low mid high = Inr (Fin 0)
       \<and> (\<exists>f. continuous_on UNIV f
              \<and> (\<forall>v. score_range pf (PFloat (Fin v)) low mid high = Inr (Fin (f v))))
       \<and> (\<forall>val v. py_float pf val = Inr v \<longrightarrow>
              score_range pf val low mid high = score_range pf (PFloat v) low mid high)
       \<and> (\<forall>val e. py_float pf val = Inl e \<longrightarrow> score_range pf val low mid high = Inr (Fin 0))
       \<and> score_range pf PNone low mid high = Inr (Fin 0)"
proof -
  have ends: "score_range pf (PFloat (Fin low)) low mid high = Inr (Fin 0)"
    "score_range pf (PFloat (Fin high)) low mid high = Inr (Fin 0)"
    by (simp_all add: score_range_fin spec_score_range_def)
  have peak: "score_range pf (PFloat (Fin mid)) low mid high = Inr (Fin 1)"
    using assms by (simp add: score_range_fin spec_score_range_def)
  have rise: "\<exists>x y. score_range pf (PFloat (Fin a)) low mid high = Inr (Fin x)
                   \<and> score_range pf (PFloat (Fin b)) low mid high = Inr (Fin y) \<and> x \<le> y"
    if "low \<le> a \<and> a \<le> b \<and> b \<le> mid" for a b
  proof -
    have "(a - low) / (mid - low) \<le> (b - low) / (mid - low)"
      using assms that by (simp add: divide_right_mono)
    then have "spec_score_range a low mid high \<le> spec_score_range b low mid high"
      using assms that by (simp add: spec_score_range_rising)
    then show ?thesis by (simp add: score_range_fin)
  qed
  have fall: "\<exists>x y. score_range pf (PFloat (Fin a)) low mid high = Inr (Fin x)
                   \<and> score_range pf (PFloat (Fin b)) low mid high = Inr (Fin y) \<and> y \<le> x"
    if "mid \<le> a \<and> a \<le> b \<and> b \<le> high" for a b
  proof -
    have "(high - b) / (high - mid) \<le> (high - a) / (high - mid)"
      using assms that by (simp add: divide_right_mono)
    then have "spec_score_range b low mid high \<le> spec_score_range a low mid high"
      using assms that by (simp add: spec_score_range_falling)
    then show ?thesis by (simp add: score_range_fin)
  qed
  have ramp_up: "score_range pf (PFloat (Fin v)) low mid high = Inr (Fin ((v - low) / (mid - low)))"
    if "low \<le> v \<and> v \<le> mid" for v
    using that assms by (simp add: score_range_fin spec_score_range_rising)
  have ramp_down: "score_range pf (PFloat (Fin v)) low mid high
                     = Inr (Fin ((high - v) / (high - mid)))"
    if "mid \<le> v \<and> v \<le> high" for v
    using that assms by (simp add: score_range_fin spec_score_range_falling)
  have outside: "score_range pf (PFloat (Fin v)) low mid high = Inr (Fin 0)"
    if "v \<le> low \<or> high \<le> v" for v
    using that by (simp add: score_range_fin spec_score_range_def)
  have inf: "score_range pf (PFloat PosInf) low mid high = Inr (Fin 0)"
    "score_range pf (PFloat NegInf) low mid high = Inr (Fin 0)"
    by (rule score_range_infinite)+
  have cont: "\<exists>f. continuous_on UNIV f
              \<and> (\<forall>v. score_range pf (PFloat (Fin v)) low mid high = Inr (Fin (f v)))"
  proof (intro exI conjI allI)
    show "continuous_on UNIV (\<lambda>v. spec_score_range v low mid high)"
      using assms by (rule spec_score_range_continuous)
    show "score_range pf (PFloat (Fin v)) low mid high
            = Inr (Fin (spec_score_range v low mid high))" for v
      by (rule score_range_fin)
  qed
  have numeric: "score_range pf val low mid high = score_range pf (PFloat v) low mid high"
    if "py_float pf val = Inr v" for val v
    using that by (rule score_range_of_float)
  have non_numeric: "score_range pf val low mid high = Inr (Fin 0)"
    if "py_float pf val = Inl e" for val e
    using that by (rule score_range_of_error)
  have absent: "score_range pf PNone low mid high = Inr (Fin 0)"
    by (simp add: score_range_def)
  from ends peak inf cont absent show ?thesis
    apply (intro conjI allI impI)
                 apply assumption
                apply assumption
               apply assumption
              apply (erule rise)
             apply (erule fall)
            apply (erule ramp_up)
           apply (erule ramp_down)
          apply (erule outside)
         apply assumption
        apply assumption
       apply assumption
      apply (erule numeric)
     apply (erule non_numeric)
    apply assumption
    done
qed

theorem score_range_triangle_witness:
  "(4::real) < 7.5 \<and> (7.5::real) < 9.5
     \<and> score_range no_numeric_text (PFloat (Fin 4)) 4 7.5 9.5 = Inr (Fin 0)
     \<and> score_range no_numeric_text (PFloat (Fin 9.5)) 4 7.5 9.5 = Inr (Fin 0)
     \<and> score_range no_numeric_text (PFloat (Fin 7.5)) 4 7.5 9.5 = Inr (Fin 1)
     \<and> score_range no_numeric_text (PFloat (Fin 6)) 4 7.5 9.5 = Inr (Fin ((6 - 4) / (7.5 - 4)))
     \<and> score_range no_numeric_text (PFloat (Fin 9)) 4 7.5 9.5 = Inr (Fin ((9.5 - 9) / (9.5 - 7.5)))
     \<and> score_range no_numeric_text (PFloat (Fin 2)) 4 7.5 9.5 = Inr (Fin 0)
     \<and> score_range no_numeric_text (PStr (str_of ''seven'')) 4 7.5 9.5 = Inr (Fin 0)"
proof -
  have lo: "(4::real) < 7.5" and hi: "(7.5::real) < 9.5" by simp_all
  note t = score_range_triangle [OF lo hi, of no_numeric_text]
  note ends = t [THEN conjunct1] t [THEN conjunct2, THEN conjunct1]
    t [THEN conjunct2, THEN conjunct2, THEN conjunct1]
  note r5 = t [THEN conjunct2, THEN conjunct2, THEN conjunct2, THEN conjunct2, THEN conjunct2]
  note up = r5 [THEN conjunct1]
  note down = r5 [THEN conjunct2, THEN conjunct1]
  note out = r5 [THEN conjunct2, THEN conjunct2, THEN conjunct1]
  note r12 = r5 [THEN conjunct2, THEN conjunct2, THEN conjunct2, THEN conjunct2, THEN conjunct2,
      THEN conjunct2, THEN conjunct2]
  note bad = r12 [THEN conjunct1]
  have "score_range no_numeric_text (PFloat (Fin 6)) 4 7.5 9.5 = Inr (Fin ((6 - 4) / (7.5 - 4)))"
    using up [rule_format, of 6] by simp
  moreover have "score_range no_numeric_text (PFloat (Fin 9)) 4 7.5 9.5
                   = Inr (Fin ((9.5 - 9) / (9.5 - 7.5)))"
    using down [rule_format, of 9] by simp
  moreover have "score_range no_numeric_text (PFloat (Fin 2)) 4 7.5 9.5 = Inr (Fin 0)"
    using out [rule_format, of 2] by simp
  moreover have "score_range no_numeric_text (PStr (str_of ''seven'')) 4 7.5 9.5 = Inr (Fin 0)"
    using bad [rule_format, of "PStr (str_of ''seven'')" ValueError]
    by (simp add: no_numeric_text_def)
  ultimately show ?thesis using lo hi ends by simp
qed

subsection \<open>Rounding\<close>

lemma round_half_even_bounds:
  assumes "of_int a \<le> x" "x \<le> of_int b"
  shows "a \<le> round_half_even x \<and> round_half_even x \<le> b"
proof -
  have lower: "a \<le> \<lfloor>x\<rfloor>" using assms(1) by (simp add: le_floor_iff)
  have upper: "\<lfloor>x\<rfloor> \<le> b" using assms(2) by (simp add: floor_le_iff)
  show ?thesis
  proof (cases "x = of_int b")
    case True
    then show ?thesis using lower by (simp add: round_half_even_def)
  next
    case False
    then have "x < of_int b" using assms(2) by simp
    then have "\<lfloor>x\<rfloor> < b" by (simp add: floor_less_iff)
    then show ?thesis using lower by (auto simp add: round_half_even_def Let_def)
  qed
qed

lemma py_round_two_bounds:
  assumes "0 \<le> x" "x \<le> 100"
  shows "\<exists>p. py_round (Fin x) 2 = Fin p \<and> 0 \<le> p \<and> p \<le> 100 \<and> (\<exists>k::int. p = of_int k / 100)"
proof -
  have "of_int 0 \<le> x * 100" "x * 100 \<le> of_int 10000" using assms by simp_all
  then have "0 \<le> round_half_even (x * 100) \<and> round_half_even (x * 100) \<le> 10000"
    by (rule round_half_even_bounds)
  then have bounds: "0 \<le> (of_int (round_half_even (x * 100)) :: real)"
    "(of_int (round_half_even (x * 100)) :: real) \<le> 10000"
    by simp_all
  show ?thesis
  proof (intro exI conjI)
    show "py_round (Fin x) 2 = Fin (of_int (round_half_even (x * 100)) / 100)" by simp
    show "0 \<le> (of_int (round_half_even (x * 100)) :: real) / 100" using bounds by simp
    show "(of_int (round_half_even (x * 100)) :: real) / 100 \<le> 100" using bounds by simp
    show "(of_int (round_half_even (x * 100)) :: real) / 100
            = of_int (round_half_even (x * 100)) / 100" by simp
  qed
qed

subsection \<open>The composite score\<close>

lemma burn_score_unit:
  assumes "\<not> truthy calories_burned \<or> (\<exists>b. py_float pf calories_burned = Inr b \<and> \<not> b < Fin 0)"
  shows "\<exists>s. burn_score pf calories_burned = Inr (Fin s) \<and> 0 \<le> s \<and> s \<le> 1"
proof -
  have "\<exists>b. py_float pf (py_or calories_burned (PInt 0)) = Inr b \<and> \<not> b < Fin 0"
    using assms by (auto simp add: py_or_def float_of_int_def)
  then obtain b where b: "py_float pf (py_or calories_burned (PInt 0)) = Inr b" "\<not> b < Fin 0"
    by blast
  show ?thesis
  proof (cases b)
    case (Fin x)
    then have "0 \<le> x" using b(2) by simp
    then have "0 \<le> min 1 (x / 400) \<and> min 1 (x / 400) \<le> 1" by simp
    moreover have "burn_score pf calories_burned = Inr (Fin (min 1 (x / 400)))"
      using b(1) Fin by (simp add: burn_score_def py_min_def min_def)
    ultimately show ?thesis by blast
  next
    case PosInf
    then show ?thesis using b(1) by (simp add: burn_score_def py_min_def)
  next
    case NegInf
    then show ?thesis using b(2) by simp
  next
    case NaN
    then show ?thesis using b(1) by (simp add: burn_score_def py_min_def)
  qed
qed

text \<open>The calorie ratio is \<^verbatim>\<open>nan\<close> only when intake or target is, or when both are
  infinite.\<close>

lemma cal_ratio_not_nan:
  assumes "calories_intake \<noteq> PFloat NaN" "target \<noteq> PFloat NaN"
    and "\<not> (infinite_float calories_intake \<and> infinite_float target)"
  shows "cal_ratio pf calories_intake target \<noteq> NaN"
proof (cases "cal_ratio_try pf calories_intake target")
  case (Inl e)
  then show ?thesis by (simp add: cal_ratio_def)
next
  case (Inr r)
  have "r \<noteq> NaN"
  proof (cases "truthy target")
    case False
    then show ?thesis using Inr by (auto simp add: cal_ratio_try_def)
  next
    case True
    show ?thesis
    proof (cases "py_le_int target 0")
      case (Inl e)
      then show ?thesis using Inr True by (simp add: cal_ratio_try_def)
    next
      case le: (Inr below)
      show ?thesis
      proof (cases below)
        case True
        then show ?thesis using Inr le \<open>truthy target\<close> by (auto simp add: cal_ratio_try_def)
      next
        case False
        obtain t where t: "py_float pf target = Inr t"
          and div: "py_truediv (py_or calories_intake (PFloat (Fin 0))) t = Inr r"
          using Inr le False \<open>truthy target\<close>
          by (auto simp add: cal_ratio_try_def split: sum.splits)
        obtain n where n: "py_number (py_or calories_intake (PFloat (Fin 0))) = Inr n"
          and q: "fl_div n t = Inr r"
          using div by (auto simp add: py_truediv_def split: sum.splits)
        have t_cases: "(\<exists>x. t = Fin x \<and> 0 < x) \<or> (t = PosInf \<and> target = PFloat PosInf)"
          using t le False assms(2)
          by (cases target; cases t) (auto simp add: float_of_int_def split: if_splits)
        have n_not_nan: "n \<noteq> NaN"
          using n assms(1)
          by (cases calories_intake)
            (auto simp add: py_or_def float_of_int_def split: if_splits)
        have n_inf: "n = PosInf \<or> n = NegInf \<Longrightarrow> infinite_float calories_intake"
          using n
          by (cases calories_intake)
            (auto simp add: py_or_def float_of_int_def infinite_float_def split: if_splits)
        from t_cases show ?thesis
        proof
          assume "\<exists>x. t = Fin x \<and> 0 < x"
          then show ?thesis using q n_not_nan by (cases n) auto
        next
          assume inf: "t = PosInf \<and> target = PFloat PosInf"
          then have "\<not> infinite_float calories_intake"
            using assms(3) by (simp add: infinite_float_def)
          then have "\<exists>a. n = Fin a" using n_inf n_not_nan by (cases n) auto
          then show ?thesis using q inf by auto
        qed
      qed
    qed
  qed
  then show ?thesis using Inr by (simp add: cal_ratio_def)
qed

lemma weighted_total_unit:
  fixes b s m c h :: real
  assumes "0 \<le> b \<and> b \<le> 1" "0 \<le> s \<and> s \<le> 1" "0 \<le> m \<and> m \<le> 1"
    "0 \<le> c \<and> c \<le> 1" "0 \<le> h \<and> h \<le> 1"
  shows "0 \<le> (0.28 * b + 0.25 * s + 0.18 * m + 0.20 * c + 0.09 * h) * 100
       \<and> (0.28 * b + 0.25 * s + 0.18 * m + 0.20 * c + 0.09 * h) * 100 \<le> 100"
  using assms by simp

text \<open>
  Claim C4, as amended. When \<^verbatim>\<open>calories_burned\<close> is absent or converts to a float that is
  not negative, none of sleep hours, meal interval and heart rate converts to \<^verbatim>\<open>nan\<close>,
  neither intake nor target is \<^verbatim>\<open>nan\<close> and they are not both infinite, then
  \<^verbatim>\<open>compute_lifestyle_points\<close> returns a score in \<open>[0, 100]\<close> that is a whole number of
  hundredths.
\<close>

theorem lifestyle_points_range:
  assumes "\<not> truthy calories_burned \<or> (\<exists>b. py_float pf calories_burned = Inr b \<and> \<not> b < Fin 0)"
    and "py_float pf sleep_hours \<noteq> Inr NaN"
    and "py_float pf avg_meal_interval_hours \<noteq> Inr NaN"
    and "py_float pf avg_bpm \<noteq> Inr NaN"
    and "calories_intake \<noteq> PFloat NaN" and "target_calories \<noteq> PFloat NaN"
    and "\<not> (infinite_float calories_intake \<and> infinite_float target_calories)"
  shows "\<exists>points. compute_lifestyle_points pf calories_burned sleep_hours avg_meal_interval_hours
                     calories_intake target_calories avg_bpm = Inr (Fin points)
                 \<and> 0 \<le> points \<and> points \<le> 100 \<and> (\<exists>k::int. points = of_int k / 100)"
proof -
  obtain burn where burn: "burn_score pf calories_burned = Inr (Fin burn)" "0 \<le> burn \<and> burn \<le> 1"
    using burn_score_unit [OF assms(1)] by blast
  have "py_float pf (py_or sleep_hours (PFloat (Fin 0))) \<noteq> Inr NaN"
    using assms(2) by (simp add: py_or_def)
  then obtain sleep where sleep: "sleep_score pf sleep_hours = Inr (Fin sleep)"
      "0 \<le> sleep \<and> sleep \<le> 1"
    unfolding sleep_score_def
    using score_range_unit [of 4 "7.5" "9.5" pf "py_or sleep_hours (PFloat (Fin 0))"] by auto
  have "py_float pf (py_or avg_meal_interval_hours (PFloat (Fin 3.5))) \<noteq> Inr NaN"
    using assms(3) by (simp add: py_or_def)
  then obtain meal where meal: "meal_interval_score pf avg_meal_interval_hours = Inr (Fin meal)"
      "0 \<le> meal \<and> meal \<le> 1"
    unfolding meal_interval_score_def
    using score_range_unit [of "0.5" "3.5" 6 pf "py_or avg_meal_interval_hours (PFloat (Fin 3.5))"]
    by auto
  have "py_float pf (PFloat (cal_ratio pf calories_intake target_calories)) \<noteq> Inr NaN"
    using cal_ratio_not_nan [OF assms(5,6,7), of pf] by simp
  then obtain cal where cal: "cal_score pf calories_intake target_calories = Inr (Fin cal)"
      "0 \<le> cal \<and> cal \<le> 1"
    unfolding cal_score_def
    using score_range_unit [of "0.6" 1 "1.3" pf "PFloat (cal_ratio pf calories_intake target_calories)"]
    by auto
  have "py_float pf (py_or avg_bpm (PInt 60)) \<noteq> Inr NaN"
    using assms(4) by (simp add: py_or_def float_of_int_def)
  then obtain bpm where bpm: "bpm_score pf avg_bpm = Inr (Fin bpm)" "0 \<le> bpm \<and> bpm \<le> 1"
    unfolding bpm_score_def
    using score_range_unit [of 40 64 86 pf "py_or avg_bpm (PInt 60)"] by auto
  define total where
    "total = (0.28 * burn + 0.25 * sleep + 0.18 * meal + 0.20 * cal + 0.09 * bpm) * 100"
  have total: "0 \<le> total \<and> total \<le> 100"
    unfolding total_def
    by (rule weighted_total_unit [OF burn(2) sleep(2) meal(2) cal(2) bpm(2)])
  have result: "compute_lifestyle_points pf calories_burned sleep_hours avg_meal_interval_hours
                  calories_intake target_calories avg_bpm = Inr (py_round (Fin total) 2)"
    using burn(1) sleep(1) meal(1) cal(1) bpm(1)
    by (simp add: compute_lifestyle_points_def total_def)
  show ?thesis
    using py_round_two_bounds [of total] total result by auto
qed

theorem lifestyle_points_range_witness:
  "\<exists>points. compute_lifestyle_points no_numeric_text (PInt 350) (PFloat (Fin 7))
               (PStr (str_of ''often'')) (PInt 1800) (PInt 2000) (PFloat PosInf)
             = Inr (Fin points)
           \<and> 0 \<le> points \<and> points \<le> 100 \<and> (\<exists>k::int. points = of_int k / 100)"
proof -
  have b: "\<not> truthy (PInt 350)
        \<or> (\<exists>b. py_float no_numeric_text (PInt 350) = Inr b \<and> \<not> b < Fin 0)"
    by (simp add: float_of_int_def)
  have s: "py_float no_numeric_text (PFloat (Fin 7)) \<noteq> Inr NaN" by simp
  have m: "py_float no_numeric_text (PStr (str_of ''often'')) \<noteq> Inr NaN"
    by (simp add: no_numeric_text_def)
  have h: "py_float no_numeric_text (PFloat PosInf) \<noteq> Inr NaN" by simp
  have i: "PInt 1800 \<noteq> PFloat NaN" and t: "PInt 2000 \<noteq> PFloat NaN" by simp_all
  have r: "\<not> (infinite_float (PInt 1800) \<and> infinite_float (PInt 2000))"
    by (simp add: infinite_float_def)
  show ?thesis by (rule lifestyle_points_range [OF b s m h i t r])
qed

theorem lifestyle_points_out_of_range:
  "compute_lifestyle_points no_numeric_text (PInt (- 4000)) PNone PNone PNone PNone PNone
     = Inr (Fin (- 234.5))
   \<and> compute_lifestyle_points no_numeric_text PNone (PFloat NaN) PNone PNone PNone PNone
     = Inr NaN
   \<and> compute_lifestyle_points no_numeric_text PNone PNone (PFloat NaN) PNone PNone PNone
     = Inr NaN
   \<and> compute_lifestyle_points no_numeric_text PNone PNone PNone PNone PNone (PFloat NaN)
     = Inr NaN
   \<and> compute_lifestyle_points no_numeric_text PNone PNone PNone (PFloat NaN) (PInt 2000) PNone
     = Inr NaN
   \<and> compute_lifestyle_points no_numeric_text PNone PNone PNone (PInt 1800) (PFloat NaN) PNone
     = Inr NaN
   \<and> compute_lifestyle_points no_numeric_text PNone PNone PNone (PFloat PosInf) (PFloat PosInf)
        PNone
     = Inr NaN"
  by (simp add: compute_lifestyle_points_def burn_score_def sleep_score_def
      meal_interval_score_def cal_score_def cal_ratio_def cal_ratio_try_def bpm_score_def
      score_range_def py_or_def py_min_def py_truediv_def float_of_int_def round_half_even_def
      minus_pyfloat_def)

text \<open>
  Claim C9. With all six signals absent the sub-scores are burn 0, sleep 0, meal interval
  1, calorie ratio 1 (so calorie score 1) and heart rate \<open>score_range(60, 40, 64, 86) = 5/6\<close>,
  and the composite is \<open>round(100 * (0.18 + 0.20 + 0.09 * 5/6), 2) = 45.5\<close>.
\<close>

theorem lifestyle_points_all_absent:
  "burn_score pf PNone = Inr (Fin 0)
   \<and> sleep_score pf PNone = Inr (Fin 0)
   \<and> meal_interval_score pf PNone = Inr (Fin 1)
   \<and> cal_ratio pf PNone PNone = Fin 1
   \<and> cal_score pf PNone PNone = Inr (Fin 1)
   \<and> bpm_score pf PNone = score_range pf (PInt 60) 40 64 86
   \<and> score_range pf (PInt 60) 40 64 86 = Inr (Fin (5 / 6))
   \<and> py_round (Fin (100 * (0.18 + 0.20 + 0.09 * 5 / 6))) 2 = Fin 45.5
   \<and> compute_lifestyle_points pf PNone PNone PNone PNone PNone PNone = Inr (Fin 45.5)"
proof -
  have burn: "burn_score pf PNone = Inr (Fin 0)"
    by (simp add: burn_score_def py_or_def float_of_int_def py_min_def)
  have sleep: "sleep_score pf PNone = Inr (Fin 0)"
    by (simp add: sleep_score_def py_or_def score_range_def)
  have meal: "meal_interval_score pf PNone = Inr (Fin 1)"
    by (simp add: meal_interval_score_def py_or_def score_range_def)
  have ratio: "cal_ratio pf PNone PNone = Fin 1"
    by (simp add: cal_ratio_def cal_ratio_try_def)
  have cal: "cal_score pf PNone PNone = Inr (Fin 1)"
    by (simp add: cal_score_def ratio score_range_def)
  have bpm: "bpm_score pf PNone = score_range pf (PInt 60) 40 64 86"
    by (simp add: bpm_score_def py_or_def)
  have tri: "score_range pf (PInt 60) 40 64 86 = Inr (Fin (5 / 6))"
    by (simp add: score_range_def float_of_int_def)
  have rnd: "py_round (Fin (100 * (0.18 + 0.20 + 0.09 * 5 / 6))) 2 = Fin 45.5"
    by (simp add: round_half_even_def)
  have all: "compute_lifestyle_points pf PNone PNone PNone PNone PNone PNone = Inr (Fin 45.5)"
    by (simp add: compute_lifestyle_points_def burn sleep meal cal bpm tri round_half_even_def)
  show ?thesis using burn sleep meal ratio cal bpm tri rnd all by simp
qed

text \<open>
  Claim C8, at its failing input. A non-numeric \<^verbatim>\<open>calories_burned\<close> makes
  \<^verbatim>\<open>compute_lifestyle_points\<close> raise \<^verbatim>\<open>ValueError\<close>, and with a model loaded a non-numeric
  height makes \<^verbatim>\<open>compute_daily_targets\<close> raise it too: both conversions stand outside
  every \<^verbatim>\<open>try\<close>.
\<close>

theorem unguarded_conversions_raise:
  "compute_lifestyle_points no_numeric_text (PStr (str_of ''abc'')) PNone PNone PNone PNone PNone
     = Inl ValueError
   \<and> fst (compute_daily_targets no_numeric_text 2026 (Contents (PickleObject steady_model)) None
            (map_of [(''height_cm'', PStr (str_of ''abc''))]))
     = Inl ValueError"
  by (simp add: compute_lifestyle_points_def burn_score_def py_or_def no_numeric_text_def
      compute_daily_targets_def target_override_def getattr_def predict_target_from_model_def
      age_expr_def str_of_def)

section \<open>Properties of the target estimate\<close>

subsection \<open>Reading a typed profile\<close>

lemma str_of_eq [simp]: "str_of a = str_of b \<longleftrightarrow> a = b"
proof -
  have "inj (of_char :: char \<Rightarrow> nat)" by (rule inj_of_char)
  then show ?thesis by (simp add: str_of_def)
qed

lemma str_of_empty [simp]: "str_of s = [] \<longleftrightarrow> s = []"
  by (simp add: str_of_def)

lemma as_object_getattr:
  "getattr (as_object p) ''birth_date'' d =
     (case profile_birth_date p of None \<Rightarrow> PNone | Some (y, m, dd) \<Rightarrow> PDate y m dd)"
  "getattr (as_object p) ''sex'' d = PStr (str_of (profile_sex p))"
  "getattr (as_object p) ''height_cm'' d = opt_float (profile_height p)"
  "getattr (as_object p) ''weight_kg'' d = opt_float (profile_weight p)"
  "getattr (as_object p) ''activity_level'' d =
     (case profile_level p of None \<Rightarrow> PNone | Some l \<Rightarrow> PStr (str_of l))"
  "getattr (as_object p) ''activity_multiplier'' d = opt_float (profile_multiplier p)"
  "getattr (as_object p) ''goal'' d = PStr (str_of (profile_goal p))"
  "getattr (as_object p) ''target_calories'' d = opt_float (profile_override p)"
  by (simp_all add: getattr_def as_object_def)

lemma as_object_attr:
  "attr (as_object p) ''birth_date'' =
     Inr (case profile_birth_date p of None \<Rightarrow> PNone | Some (y, m, dd) \<Rightarrow> PDate y m dd)"
  "attr (as_object p) ''target_calories'' = Inr (opt_float (profile_override p))"
  by (simp_all add: attr_def as_object_def)

lemma float_or_default:
  assumes "float_of_int d = Inr (Fin r)"
  shows "py_float pf (py_or (opt_float x) (PInt d))
           = Inr (Fin (case zero_as_absent x of None \<Rightarrow> r | Some a \<Rightarrow> a))"
  using assms
  by (auto simp add: py_or_def opt_float_def zero_as_absent_def split: option.splits)

lemma float_of_defaults:
  "float_of_int 70 = Inr (Fin 70)" "float_of_int 170 = Inr (Fin 170)"
  "float_of_int 165 = Inr (Fin 165)"
  by (simp_all add: float_of_int_def)

lemma float_or_float_default:
  "py_float pf (py_or (opt_float x) (PFloat (Fin r)))
     = Inr (Fin (case zero_as_absent x of None \<Rightarrow> r | Some a \<Rightarrow> a))"
  by (auto simp add: py_or_def opt_float_def zero_as_absent_def split: option.splits)

lemma truthy_opt_float: "truthy (opt_float x) \<longleftrightarrow> zero_as_absent x \<noteq> None"
  by (simp add: opt_float_def zero_as_absent_def split: option.splits)

lemma age_expr_profile: "age_expr today_year (as_object p) = Inr (spec_age today_year p)"
  by (simp add: age_expr_def as_object_getattr as_object_attr spec_age_def
      split: option.splits prod.splits)

lemma zeros_absent_fields:
  "profile_birth_date (zeros_absent p) = profile_birth_date p"
  "profile_sex (zeros_absent p) = profile_sex p"
  "profile_height (zeros_absent p) = zero_as_absent (profile_height p)"
  "profile_weight (zeros_absent p) = zero_as_absent (profile_weight p)"
  "profile_level (zeros_absent p) = profile_level p"
  "profile_multiplier (zeros_absent p) = zero_as_absent (profile_multiplier p)"
  "profile_goal (zeros_absent p) = profile_goal p"
  by (simp_all add: zeros_absent_def)

lemma py_max_fin: "py_max (Fin a) (Fin b) = Fin (max a b)"
  by (simp add: py_max_def max_def)

lemma compute_bmr_profile:
  "compute_bmr pf today_year (as_object p) = Fin (spec_bmr today_year (zeros_absent p))"
proof -
  have w: "py_float pf (py_or (opt_float (profile_weight p)) (PInt 70))
             = Inr (Fin (spec_weight (zeros_absent p)))"
    using float_or_default [OF float_of_defaults(1), of pf "profile_weight p"]
    by (simp add: spec_weight_def zeros_absent_fields)
  have h: "py_float pf (py_or (opt_float (profile_height p)) (PInt 170))
             = Inr (Fin (spec_height (zeros_absent p)))"
    using float_or_default [OF float_of_defaults(2), of pf "profile_height p"]
    by (simp add: spec_height_def zeros_absent_fields)
  have "compute_bmr_try pf today_year (as_object p)
          = Inr (Fin (spec_bmr today_year (zeros_absent p)))"
    by (simp add: compute_bmr_try_def as_object_getattr age_expr_profile w h spec_bmr_def
        spec_age_def zeros_absent_fields py_max_fin)
  then show ?thesis by (simp add: compute_bmr_def)
qed

lemma level_multiplier_profile:
  "activity_multiplier_from_level (case l of None \<Rightarrow> PNone | Some s \<Rightarrow> PStr (str_of s))
     = Inr (PFloat (Fin (spec_level_multiplier l)))"
  by (cases l) (simp_all add: spec_level_multiplier_def mapping_def)

lemma clamp_target_value:
  "py_number (clamp_target (Fin t)) = Inr (Fin (max 1000 (min 4500 t)))"
  by (simp add: clamp_target_def Let_def float_of_int_def)

lemma formula_target_profile:
  "formula_target pf today_year (as_object p) =
     Inr (PDict
       [(str_of ''target'',
           clamp_target (Fin (spec_bmr today_year (zeros_absent p) * spec_multiplier (zeros_absent p)
                               + spec_goal_adjustment (profile_goal p)))),
        (str_of ''target_calories'',
           clamp_target (Fin (spec_bmr today_year (zeros_absent p) * spec_multiplier (zeros_absent p)
                               + spec_goal_adjustment (profile_goal p))))])"
proof (cases "zero_as_absent (profile_multiplier p)")
  case None
  then have "\<not> truthy (opt_float (profile_multiplier p))" by (simp add: truthy_opt_float)
  then show ?thesis using None
    by (simp add: formula_target_def as_object_getattr compute_bmr_profile
        level_multiplier_profile spec_multiplier_def spec_goal_adjustment_def
        zeros_absent_fields Let_def)
next
  case (Some m)
  then have t: "truthy (opt_float (profile_multiplier p))" by (simp add: truthy_opt_float)
  have "opt_float (profile_multiplier p) = PFloat (Fin m)"
    using Some by (simp add: zero_as_absent_def opt_float_def split: option.splits if_splits)
  then show ?thesis using Some t
    by (simp add: formula_target_def as_object_getattr compute_bmr_profile
        spec_multiplier_def spec_goal_adjustment_def zeros_absent_fields Let_def)
qed

lemma formula_target_spec:
  "\<exists>t. formula_target pf today_year (as_object p)
          = Inr (PDict [(str_of ''target'', t), (str_of ''target_calories'', t)])
        \<and> py_number t = Inr (Fin (spec_estimate today_year (zeros_absent p)))"
proof (intro exI conjI)
  show "formula_target pf today_year (as_object p) =
     Inr (PDict
       [(str_of ''target'',
           clamp_target (Fin (spec_bmr today_year (zeros_absent p) * spec_multiplier (zeros_absent p)
                               + spec_goal_adjustment (profile_goal p)))),
        (str_of ''target_calories'',
           clamp_target (Fin (spec_bmr today_year (zeros_absent p) * spec_multiplier (zeros_absent p)
                               + spec_goal_adjustment (profile_goal p))))])"
    by (rule formula_target_profile)
  show "py_number (clamp_target (Fin (spec_bmr today_year (zeros_absent p)
            * spec_multiplier (zeros_absent p) + spec_goal_adjustment (profile_goal p))))
     = Inr (Fin (spec_estimate today_year (zeros_absent p)))"
    by (simp add: clamp_target_value spec_estimate_def zeros_absent_fields)
qed

lemma target_override_profile:
  "target_override pf (as_object p) = map_option Fin (zero_as_absent (profile_override p))"
  by (simp add: target_override_def as_object_getattr as_object_attr opt_float_def
      zero_as_absent_def split: option.splits)

lemma no_override_profile:
  "profile_override p = None \<or> profile_override p = Some 0
     \<Longrightarrow> target_override pf (as_object p) = None"
  by (auto simp add: target_override_profile zero_as_absent_def)

lemma predict_profile:
  assumes "load_target_model MODEL_PATH cache = (Some m, cache')"
  shows "predict_target_from_model pf today_year MODEL_PATH cache (as_object p) =
           (Inr (case m [spec_features today_year (zeros_absent p)] of
                   Inl e \<Rightarrow> None
                 | Inr [] \<Rightarrow> None
                 | Inr (v # rest) \<Rightarrow> (case py_float pf v of Inl e \<Rightarrow> None | Inr r \<Rightarrow> Some r)),
            cache')"
  using assms float_or_default [OF float_of_defaults(1), of pf "profile_weight p"]
    float_or_default [OF float_of_defaults(3), of pf "profile_height p"]
    float_or_float_default [of pf "profile_multiplier p" "1.3"]
  by (simp add: predict_target_from_model_def as_object_getattr age_expr_profile
      spec_features_def zeros_absent_fields spec_age_def)

lemma predict_no_model:
  assumes "load_target_model MODEL_PATH cache = (None, cache')"
  shows "predict_target_from_model pf today_year MODEL_PATH cache user = (Inr None, cache')"
  using assms by (simp add: predict_target_from_model_def)

text \<open>Nothing after the first \<^verbatim>\<open>try\<close> block reads \<^verbatim>\<open>target_calories\<close>.\<close>

lemma getattr_without_override:
  "getattr (user(''target_calories'' := None)) ''birth_date'' d = getattr user ''birth_date'' d"
  "getattr (user(''target_calories'' := None)) ''sex'' d = getattr user ''sex'' d"
  "getattr (user(''target_calories'' := None)) ''height_cm'' d = getattr user ''height_cm'' d"
  "getattr (user(''target_calories'' := None)) ''weight_kg'' d = getattr user ''weight_kg'' d"
  "getattr (user(''target_calories'' := None)) ''activity_level'' d
     = getattr user ''activity_level'' d"
  "getattr (user(''target_calories'' := None)) ''activity_multiplier'' d
     = getattr user ''activity_multiplier'' d"
  "getattr (user(''target_calories'' := None)) ''goal'' d = getattr user ''goal'' d"
  "attr (user(''target_calories'' := None)) ''birth_date'' = attr user ''birth_date''"
  by (simp_all add: getattr_def attr_def)

lemma without_override:
  "predict_target_from_model pf today_year MODEL_PATH cache (user(''target_calories'' := None))
     = predict_target_from_model pf today_year MODEL_PATH cache user"
  "formula_target pf today_year (user(''target_calories'' := None))
     = formula_target pf today_year user"
  "target_override pf (user(''target_calories'' := None)) = None"
proof -
  show "predict_target_from_model pf today_year MODEL_PATH cache
          (user(''target_calories'' := None))
        = predict_target_from_model pf today_year MODEL_PATH cache user"
    unfolding predict_target_from_model_def age_expr_def getattr_without_override
    by (rule refl)
  show "formula_target pf today_year (user(''target_calories'' := None))
          = formula_target pf today_year user"
    unfolding formula_target_def compute_bmr_def compute_bmr_try_def age_expr_def
      getattr_without_override
    by (rule refl)
  show "target_override pf (user(''target_calories'' := None)) = None"
    by (simp add: target_override_def getattr_def)
qed

lemma example_estimate: "spec_estimate 2026 (zeros_absent example_profile) = 1978.5"
  by (simp add: spec_estimate_def spec_bmr_def spec_multiplier_def spec_level_multiplier_def
      spec_goal_adjustment_def spec_age_def spec_weight_def spec_height_def zeros_absent_def
      zero_as_absent_def example_profile_def)

lemma model_path:
  assumes "profile_override p = None \<or> profile_override p = Some 0"
    and "load_target_model MODEL_PATH cache = (Some m, cache')"
  shows "compute_daily_targets pf today_year MODEL_PATH cache (as_object p)
           = (case m [spec_features today_year (zeros_absent p)] of
                Inl e \<Rightarrow> (formula_target pf today_year (as_object p), cache')
              | Inr [] \<Rightarrow> (formula_target pf today_year (as_object p), cache')
              | Inr (v # rest) \<Rightarrow>
                  (case py_float pf v of
                     Inl e \<Rightarrow> (formula_target pf today_year (as_object p), cache')
                   | Inr r \<Rightarrow>
                       if r \<noteq> Fin 0
                       then (Inr (PDict [(str_of ''target'', PFloat r),
                                         (str_of ''target_calories'', PFloat r)]), cache')
                       else (formula_target pf today_year (as_object p), cache')))"
  using no_override_profile [OF assms(1), of pf] predict_profile [OF assms(2), of pf today_year p]
  by (simp add: compute_daily_targets_def split: sum.splits list.splits)

text \<open>A prediction that cannot be used: inference raises, returns nothing to index,
  returns something \<^verbatim>\<open>float\<close> rejects, or predicts zero.\<close>

lemma fallthrough_path:
  assumes "profile_override p = None \<or> profile_override p = Some 0"
    and "load_target_model MODEL_PATH cache = (Some m, cache')"
    and "(\<exists>v rest. m [spec_features today_year (zeros_absent p)] = Inr (v # rest)
              \<and> py_float pf v = Inr (Fin 0))
          \<or> (\<exists>e. m [spec_features today_year (zeros_absent p)] = Inl e)
          \<or> m [spec_features today_year (zeros_absent p)] = Inr []
          \<or> (\<exists>v rest e. m [spec_features today_year (zeros_absent p)] = Inr (v # rest)
                \<and> py_float pf v = Inl e)"
  shows "compute_daily_targets pf today_year MODEL_PATH cache (as_object p)
           = (formula_target pf today_year (as_object p), cache')"
  using assms(3) model_path [OF assms(1,2), of pf today_year] by auto

lemma formula_path:
  assumes "profile_override p = None \<or> profile_override p = Some 0"
    and "load_target_model MODEL_PATH cache = (None, cache')"
  shows "compute_daily_targets pf today_year MODEL_PATH cache (as_object p)
           = (formula_target pf today_year (as_object p), cache')"
  using no_override_profile [OF assms(1), of pf] predict_no_model [OF assms(2)]
  by (simp add: compute_daily_targets_def)

lemma example_formula_value:
  assumes "profile_override p = None \<or> profile_override p = Some 0"
    and "spec_estimate 2026 (zeros_absent p) = v" and "1000 < v" and "v < 4500"
  shows "fst (compute_daily_targets no_numeric_text 2026 NoFile None (as_object p))
           = Inr (PDict [(str_of ''target'', PFloat (Fin v)),
                         (str_of ''target_calories'', PFloat (Fin v))])"
proof -
  have "spec_bmr 2026 (zeros_absent p) * spec_multiplier (zeros_absent p)
          + spec_goal_adjustment (profile_goal p) = v"
    using assms(2,3,4) by (simp add: spec_estimate_def zeros_absent_fields max_def min_def
        split: if_splits)
  moreover have "clamp_target (Fin v) = PFloat (Fin v)"
    using assms(3,4) by (simp add: clamp_target_def)
  ultimately show ?thesis
    using formula_path [OF assms(1), of NoFile None None no_numeric_text 2026]
    by (simp add: formula_target_profile)
qed

lemma example_formula_target:
  "formula_target no_numeric_text 2026 (as_object example_profile)
     = Inr (PDict [(str_of ''target'', PFloat (Fin 1978.5)),
                   (str_of ''target_calories'', PFloat (Fin 1978.5))])"
proof -
  have none: "profile_override example_profile = None \<or> profile_override example_profile = Some 0"
    by (simp add: example_profile_def)
  have "fst (compute_daily_targets no_numeric_text 2026 NoFile None (as_object example_profile))
          = Inr (PDict [(str_of ''target'', PFloat (Fin 1978.5)),
                        (str_of ''target_calories'', PFloat (Fin 1978.5))])"
    using none example_estimate by (rule example_formula_value) simp_all
  moreover have "compute_daily_targets no_numeric_text 2026 NoFile None (as_object example_profile)
          = (formula_target no_numeric_text 2026 (as_object example_profile), None)"
    using none by (rule formula_path) simp
  ultimately show ?thesis by simp
qed

subsection \<open>The three paths\<close>




text \<open>
  Claim C3, as amended. When \<^verbatim>\<open>target_calories\<close> is set and truthy and \<^verbatim>\<open>float\<close>
  converts it, the estimate is that value as a float, unclamped, whatever the rest of
  the profile and the model are; the model is not even loaded. When \<^verbatim>\<open>float\<close> raises on
  it, the override is ignored: the estimate is the one of the same profile without it.
\<close>

theorem estimate_override_verbatim:
  assumes "user ''target_calories'' = Some v" and "truthy v"
  shows "(\<forall>t. py_float pf v = Inr t \<longrightarrow>
            compute_daily_targets pf today_year MODEL_PATH cache user
              = (Inr (PDict [(str_of ''target'', PFloat t),
                             (str_of ''target_calories'', PFloat t)]), cache))
       \<and> (\<forall>e. py_float pf v = Inl e \<longrightarrow>
            compute_daily_targets pf today_year MODEL_PATH cache user
              = compute_daily_targets pf today_year MODEL_PATH cache
                  (user(''target_calories'' := None)))"
proof (intro conjI allI impI)
  fix t
  assume "py_float pf v = Inr t"
  then have "target_override pf user = Some t"
    using assms by (simp add: target_override_def getattr_def attr_def)
  then show "compute_daily_targets pf today_year MODEL_PATH cache user
              = (Inr (PDict [(str_of ''target'', PFloat t),
                             (str_of ''target_calories'', PFloat t)]), cache)"
    by (simp add: compute_daily_targets_def)
next
  fix e
  assume "py_float pf v = Inl e"
  then have none: "target_override pf user = None"
    using assms by (simp add: target_override_def getattr_def attr_def)
  have r: "compute_daily_targets pf today_year MODEL_PATH cache (user(''target_calories'' := None))
          = (case None :: pyfloat option of
               Some t \<Rightarrow>
                 (Inr (PDict [(str_of ''target'', PFloat t),
                              (str_of ''target_calories'', PFloat t)]), cache)
             | None \<Rightarrow>
                 (case predict_target_from_model pf today_year MODEL_PATH cache user of
                    (Inl e, cache') \<Rightarrow> (Inl e, cache')
                  | (Inr None, cache') \<Rightarrow> (formula_target pf today_year user, cache')
                  | (Inr (Some model_pred), cache') \<Rightarrow>
                      if model_pred \<noteq> Fin 0
                      then (Inr (PDict [(str_of ''target'', PFloat model_pred),
                                        (str_of ''target_calories'', PFloat model_pred)]),
                            cache')
                      else (formula_target pf today_year user, cache')))"
    unfolding compute_daily_targets_def without_override by (rule refl)
  have l: "compute_daily_targets pf today_year MODEL_PATH cache user
          = (case None :: pyfloat option of
               Some t \<Rightarrow>
                 (Inr (PDict [(str_of ''target'', PFloat t),
                              (str_of ''target_calories'', PFloat t)]), cache)
             | None \<Rightarrow>
                 (case predict_target_from_model pf today_year MODEL_PATH cache user of
                    (Inl e, cache') \<Rightarrow> (Inl e, cache')
                  | (Inr None, cache') \<Rightarrow> (formula_target pf today_year user, cache')
                  | (Inr (Some model_pred), cache') \<Rightarrow>
                      if model_pred \<noteq> Fin 0
                      then (Inr (PDict [(str_of ''target'', PFloat model_pred),
                                        (str_of ''target_calories'', PFloat model_pred)]),
                            cache')
                      else (formula_target pf today_year user, cache')))"
    unfolding compute_daily_targets_def none by (rule refl)
  show "compute_daily_targets pf today_year MODEL_PATH cache user
              = compute_daily_targets pf today_year MODEL_PATH cache
                  (user(''target_calories'' := None))"
    by (simp only: l r)
qed

theorem estimate_override_verbatim_witness:
  "compute_daily_targets no_numeric_text 2026 (Contents (PickleObject steady_model)) None
        (map_of [(''target_calories'', PInt 9999), (''weight_kg'', PStr (str_of ''heavy''))])
      = (Inr (PDict [(str_of ''target'', PFloat (Fin 9999)),
                     (str_of ''target_calories'', PFloat (Fin 9999))]), None)
   \<and> compute_daily_targets no_numeric_text 2026 NoFile None
        ((as_object example_profile)(''target_calories'' \<mapsto> PStr (str_of ''plenty'')))
      = compute_daily_targets no_numeric_text 2026 NoFile None
          ((as_object example_profile)(''target_calories'' := None))"
proof -
  let ?u = "map_of [(''target_calories'', PInt 9999), (''weight_kg'', PStr (str_of ''heavy''))]"
  let ?w = "(as_object example_profile)(''target_calories'' \<mapsto> PStr (str_of ''plenty''))"
  have a: "?u ''target_calories'' = Some (PInt 9999)" by simp
  have b: "truthy (PInt 9999)" by simp
  have c: "py_float no_numeric_text (PInt 9999) = Inr (Fin 9999)"
    by (simp add: float_of_int_def)
  have a': "?w ''target_calories'' = Some (PStr (str_of ''plenty''))" by simp
  have b': "truthy (PStr (str_of ''plenty''))" by (simp add: str_of_def)
  have c': "py_float no_numeric_text (PStr (str_of ''plenty'')) = Inl ValueError"
    by (simp add: no_numeric_text_def)
  note good = estimate_override_verbatim [where user = ?u and v = "PInt 9999"
      and pf = no_numeric_text and today_year = 2026
      and MODEL_PATH = "Contents (PickleObject steady_model)" and cache = None,
      OF a b, THEN conjunct1, rule_format, OF c]
  note skip = estimate_override_verbatim [where user = ?w and v = "PStr (str_of ''plenty'')"
      and pf = no_numeric_text and today_year = 2026
      and MODEL_PATH = NoFile and cache = None,
      OF a' b', THEN conjunct2, rule_format, OF c']
  show ?thesis using good skip by simp
qed

theorem estimate_override_overflow:
  "truthy (PInt (10 ^ 400))
   \<and> fst (compute_daily_targets no_numeric_text 2026 NoFile None
            ((as_object example_profile)(''target_calories'' \<mapsto> PInt (10 ^ 400))))
     = Inr (PDict [(str_of ''target'', PFloat (Fin 1978.5)),
                   (str_of ''target_calories'', PFloat (Fin 1978.5))])"
proof -
  define w where "w = (as_object example_profile)(''target_calories'' \<mapsto> PInt (10 ^ 400))"
  have "py_float no_numeric_text (PInt (10 ^ 400)) = Inl OverflowError"
    by (simp add: float_of_int_def)
  then have "target_override no_numeric_text w = None"
    by (simp add: target_override_def getattr_def attr_def w_def)
  moreover have "predict_target_from_model no_numeric_text 2026 NoFile None w = (Inr None, None)"
    by (simp add: predict_target_from_model_def)
  ultimately have "fst (compute_daily_targets no_numeric_text 2026 NoFile None w)
      = formula_target no_numeric_text 2026 w"
    by (simp add: compute_daily_targets_def)
  also have "\<dots> = formula_target no_numeric_text 2026 (w(''target_calories'' := None))"
    by (simp only: without_override)
  also have "w(''target_calories'' := None)
      = (as_object example_profile)(''target_calories'' := None)"
    by (simp add: w_def)
  also have "formula_target no_numeric_text 2026
        ((as_object example_profile)(''target_calories'' := None))
      = formula_target no_numeric_text 2026 (as_object example_profile)"
    by (simp only: without_override)
  also have "\<dots> = Inr (PDict [(str_of ''target'', PFloat (Fin 1978.5)),
                            (str_of ''target_calories'', PFloat (Fin 1978.5))])"
    by (rule example_formula_target)
  finally have main: "fst (compute_daily_targets no_numeric_text 2026 NoFile None w)
      = Inr (PDict [(str_of ''target'', PFloat (Fin 1978.5)),
                    (str_of ''target_calories'', PFloat (Fin 1978.5))])" .
  have "truthy (PInt (10 ^ 400))" by simp
  then show ?thesis using main unfolding w_def by (rule conjI)
qed

text \<open>
  Claim C7, as amended. For a profile with no truthy override and a model loaded: a
  prediction that is not zero is returned as it is, unclamped; a prediction of zero
  counts as none; and when inference raises, returns nothing to index, or returns
  something \<^verbatim>\<open>float\<close> rejects, nothing is raised. In all these cases but the first the
  estimate is the one of the formula path.
\<close>

theorem estimate_model_path:
  assumes "profile_override p = None \<or> profile_override p = Some 0"
    and "load_target_model MODEL_PATH cache = (Some m, cache')"
  shows "(\<forall>v rest r. m [spec_features today_year (zeros_absent p)] = Inr (v # rest)
              \<and> py_float pf v = Inr r \<and> r \<noteq> Fin 0 \<longrightarrow>
            compute_daily_targets pf today_year MODEL_PATH cache (as_object p)
              = (Inr (PDict [(str_of ''target'', PFloat r),
                             (str_of ''target_calories'', PFloat r)]), cache'))
       \<and> ((\<exists>v rest. m [spec_features today_year (zeros_absent p)] = Inr (v # rest)
                  \<and> py_float pf v = Inr (Fin 0))
            \<or> (\<exists>e. m [spec_features today_year (zeros_absent p)] = Inl e)
            \<or> m [spec_features today_year (zeros_absent p)] = Inr []
            \<or> (\<exists>v rest e. m [spec_features today_year (zeros_absent p)] = Inr (v # rest)
                  \<and> py_float pf v = Inl e) \<longrightarrow>
            (\<exists>t. compute_daily_targets pf today_year MODEL_PATH cache (as_object p)
                    = (Inr (PDict [(str_of ''target'', t), (str_of ''target_calories'', t)]),
                       cache')
                \<and> py_number t = Inr (Fin (spec_estimate today_year (zeros_absent p)))))"
proof -
  note path = model_path [OF assms, of pf today_year]
  note formula = formula_target_spec [of pf today_year p]
  have success: "compute_daily_targets pf today_year MODEL_PATH cache (as_object p)
                   = (Inr (PDict [(str_of ''target'', PFloat r),
                                  (str_of ''target_calories'', PFloat r)]), cache')"
    if "m [spec_features today_year (zeros_absent p)] = Inr (v # rest)
          \<and> py_float pf v = Inr r \<and> r \<noteq> Fin 0"
    for v rest r
    using that path by simp
  have fallthrough: "compute_daily_targets pf today_year MODEL_PATH cache (as_object p)
                   = (formula_target pf today_year (as_object p), cache')"
    if "(\<exists>v rest. m [spec_features today_year (zeros_absent p)] = Inr (v # rest)
                  \<and> py_float pf v = Inr (Fin 0))
          \<or> (\<exists>e. m [spec_features today_year (zeros_absent p)] = Inl e)
          \<or> m [spec_features today_year (zeros_absent p)] = Inr []
          \<or> (\<exists>v rest e. m [spec_features today_year (zeros_absent p)] = Inr (v # rest)
                \<and> py_float pf v = Inl e)"
    using assms that by (rule fallthrough_path)
  show ?thesis
  proof (intro conjI allI impI)
    fix v rest r
    assume "m [spec_features today_year (zeros_absent p)] = Inr (v # rest)
              \<and> py_float pf v = Inr r \<and> r \<noteq> Fin 0"
    then show "compute_daily_targets pf today_year MODEL_PATH cache (as_object p)
                 = (Inr (PDict [(str_of ''target'', PFloat r),
                                (str_of ''target_calories'', PFloat r)]), cache')"
      by (rule success)
  next
    assume "(\<exists>v rest. m [spec_features today_year (zeros_absent p)] = Inr (v # rest)
                  \<and> py_float pf v = Inr (Fin 0))
          \<or> (\<exists>e. m [spec_features today_year (zeros_absent p)] = Inl e)
          \<or> m [spec_features today_year (zeros_absent p)] = Inr []
          \<or> (\<exists>v rest e. m [spec_features today_year (zeros_absent p)] = Inr (v # rest)
                \<and> py_float pf v = Inl e)"
    then have "compute_daily_targets pf today_year MODEL_PATH cache (as_object p)
                 = (formula_target pf today_year (as_object p), cache')"
      by (rule fallthrough)
    then show "\<exists>t. compute_daily_targets pf today_year MODEL_PATH cache (as_object p)
                    = (Inr (PDict [(str_of ''target'', t), (str_of ''target_calories'', t)]),
                       cache')
                \<and> py_number t = Inr (Fin (spec_estimate today_year (zeros_absent p)))"
      using formula by simp
  qed
qed

theorem estimate_model_path_witness:
  "compute_daily_targets no_numeric_text 2026 (Contents (PickleObject steady_model)) None
        (as_object example_profile)
      = (Inr (PDict [(str_of ''target'', PFloat (Fin 5200)),
                     (str_of ''target_calories'', PFloat (Fin 5200))]), Some steady_model)
   \<and> (\<exists>t. compute_daily_targets no_numeric_text 2026 NoFile (Some broken_model)
              (as_object example_profile)
            = (Inr (PDict [(str_of ''target'', t), (str_of ''target_calories'', t)]),
               Some broken_model)
          \<and> py_number t = Inr (Fin 1978.5))
   \<and> (\<exists>t. compute_daily_targets no_numeric_text 2026 NoFile (Some zero_model)
              (as_object example_profile)
            = (Inr (PDict [(str_of ''target'', t), (str_of ''target_calories'', t)]),
               Some zero_model)
          \<and> py_number t = Inr (Fin 1978.5))"
proof -
  have a: "profile_override example_profile = None \<or> profile_override example_profile = Some 0"
    by (simp add: example_profile_def)
  have b: "load_target_model (Contents (PickleObject steady_model)) None
             = (Some steady_model, Some steady_model)" by simp
  have c: "load_target_model NoFile (Some broken_model) = (Some broken_model, Some broken_model)"
    by simp
  have d: "load_target_model NoFile (Some zero_model) = (Some zero_model, Some zero_model)"
    by simp
  note good = estimate_model_path [OF a b, of 2026 no_numeric_text, THEN conjunct1,
      rule_format, of "PFloat (Fin 5200)" "[]" "Fin 5200"]
  note bad = estimate_model_path [OF a c, of 2026 no_numeric_text, THEN conjunct2, rule_format]
  note zero = estimate_model_path [OF a d, of 2026 no_numeric_text, THEN conjunct2, rule_format]
  have "compute_daily_targets no_numeric_text 2026 (Contents (PickleObject steady_model)) None
          (as_object example_profile)
        = (Inr (PDict [(str_of ''target'', PFloat (Fin 5200)),
                       (str_of ''target_calories'', PFloat (Fin 5200))]), Some steady_model)"
    by (rule good) (simp add: steady_model_def)
  moreover have "\<exists>t. compute_daily_targets no_numeric_text 2026 NoFile (Some broken_model)
              (as_object example_profile)
            = (Inr (PDict [(str_of ''target'', t), (str_of ''target_calories'', t)]),
               Some broken_model)
          \<and> py_number t = Inr (Fin (spec_estimate 2026 (zeros_absent example_profile)))"
    by (rule bad) (simp add: broken_model_def)
  moreover have "\<exists>t. compute_daily_targets no_numeric_text 2026 NoFile (Some zero_model)
              (as_object example_profile)
            = (Inr (PDict [(str_of ''target'', t), (str_of ''target_calories'', t)]),
               Some zero_model)
          \<and> py_number t = Inr (Fin (spec_estimate 2026 (zeros_absent example_profile)))"
    by (rule zero) (simp add: zero_model_def)
  ultimately show ?thesis by (simp add: example_estimate)
qed

theorem estimate_zero_prediction:
  "zero_model [spec_features 2026 example_profile] = Inr [PFloat (Fin 0)]
   \<and> fst (compute_daily_targets no_numeric_text 2026 (Contents (PickleObject zero_model)) None
            (as_object example_profile))
       = Inr (PDict [(str_of ''target'', PFloat (Fin 1978.5)),
                     (str_of ''target_calories'', PFloat (Fin 1978.5))])
   \<and> PFloat (Fin 1978.5) \<noteq> PFloat (Fin 0)"
proof -
  have none: "profile_override example_profile = None \<or> profile_override example_profile = Some 0"
    by (simp add: example_profile_def)
  have load: "load_target_model (Contents (PickleObject zero_model)) None
                = (Some zero_model, Some zero_model)" by simp
  have "compute_daily_targets no_numeric_text 2026 (Contents (PickleObject zero_model)) None
          (as_object example_profile)
        = (formula_target no_numeric_text 2026 (as_object example_profile), Some zero_model)"
    using model_path [OF none load, of no_numeric_text 2026]
    by (simp add: zero_model_def)
  then show ?thesis by (simp add: example_formula_target zero_model_def)
qed

section \<open>Properties of the nutrition lookup\<close>

lemma all_dropWhile: "(\<forall>x \<in> set (dropWhile P xs). P x) \<longleftrightarrow> (\<forall>x \<in> set xs. P x)"
  by (induction xs) auto

lemma py_strip_blank: "py_strip s = [] \<longleftrightarrow> list_all py_isspace s"
  by (simp add: py_strip_def dropWhile_eq_Nil_conv list_all_iff all_dropWhile)

lemma py_strip_word:
  "s \<noteq> [] \<Longrightarrow> \<not> py_isspace (hd s) \<Longrightarrow> \<not> py_isspace (last s) \<Longrightarrow> py_strip s = s"
proof -
  assume s: "s \<noteq> []" and h: "\<not> py_isspace (hd s)" and l: "\<not> py_isspace (last s)"
  have "dropWhile py_isspace s = s" using s h by (cases s) simp_all
  moreover have "dropWhile py_isspace (rev s) = rev s"
    using s l by (cases "rev s") (simp_all add: last_rev [symmetric] hd_rev)
  ultimately show ?thesis by (simp add: py_strip_def)
qed

text \<open>
  Claim C10. A query that is absent, empty or made of whitespace only gives \<^verbatim>\<open>None\<close>
  at once: no source is touched, whatever the environment, the services and the local
  table are.
\<close>

theorem lookup_blank_query:
  assumes "text = PNone \<or> (\<exists>s. text = PStr s \<and> list_all py_isspace s)"
  shows "lookup_nutrition_text pf lower env get indb_path text = (Inr PNone, [])"
proof -
  from assms consider "text = PNone" | s where "text = PStr s" "list_all py_isspace s"
    by blast
  then show ?thesis
  proof cases
    case 1
    then show ?thesis by (simp add: lookup_nutrition_text_def)
  next
    case 2
    then have "py_strip s = []" by (simp add: py_strip_blank)
    then show ?thesis using 2 by (simp add: lookup_nutrition_text_def)
  qed
qed

theorem lookup_blank_query_witness:
  "lookup_nutrition_text no_numeric_text lower_ascii all_keys zero_calorie_service local_table
        PNone
     = (Inr PNone, [])
   \<and> lookup_nutrition_text no_numeric_text lower_ascii all_keys zero_calorie_service local_table
        (PStr [])
     = (Inr PNone, [])
   \<and> list_all py_isspace [0x20, 0x09, 0x0A, 0x85, 0xA0, 0x3000]
   \<and> lookup_nutrition_text no_numeric_text lower_ascii all_keys zero_calorie_service local_table
        (PStr [0x20, 0x09, 0x0A, 0x85, 0xA0, 0x3000])
     = (Inr PNone, [])"
proof -
  have blank: "list_all py_isspace [0x20, 0x09, 0x0A, 0x85, 0xA0, 0x3000]"
    by (simp add: py_isspace_def whitespace_def)
  show ?thesis
    using blank
      lookup_blank_query [of PNone no_numeric_text lower_ascii all_keys zero_calorie_service
        local_table]
      lookup_blank_query [of "PStr []" no_numeric_text lower_ascii all_keys zero_calorie_service
        local_table]
      lookup_blank_query [of "PStr [0x20, 0x09, 0x0A, 0x85, 0xA0, 0x3000]" no_numeric_text
        lower_ascii all_keys zero_calorie_service local_table]
    by simp
qed

text \<open>
  Claim C1, at its failing input. With every source configured and the primary service
  matching one item of 0 calories, \<^verbatim>\<open>lookup_nutrition_text\<close> returns the zero-calorie
  result of the primary source and touches no other source, while
  \<^verbatim>\<open>lookup_calories_calorieninjas\<close> gives \<^verbatim>\<open>None\<close> on the same response.
\<close>

theorem lookup_zero_calorie_result:
  "lookup_nutrition_text no_numeric_text lower_ascii all_keys zero_calorie_service local_table
        (PStr (str_of ''water''))
     = (Inr (PDict [(str_of ''kcal'', PFloat (Fin 0)), (str_of ''protein_g'', PFloat (Fin 0)),
                    (str_of ''carbs_g'', PFloat (Fin 0)), (str_of ''fat_g'', PFloat (Fin 0)),
                    (str_of ''source'', PStr (str_of ''calorieninjas''))]),
        [PrimaryApi])
   \<and> lookup_calories_calorieninjas no_numeric_text (PStr (str_of ''k1'')) zero_calorie_service
        (PStr (str_of ''water''))
     = PNone"
proof -
  have strip: "py_strip (str_of ''water'') = str_of ''water''"
    by (rule py_strip_word) (simp_all add: str_of_def py_isspace_def whitespace_def)
  have zero: "float_of_int 0 = Inr (Fin 0)" by (simp add: float_of_int_def)
  have primary: "try_calorieninjas no_numeric_text all_keys zero_calorie_service (str_of ''water'')
                   = (Some (PDict [(str_of ''kcal'', PFloat (Fin 0)),
                                   (str_of ''protein_g'', PFloat (Fin 0)),
                                   (str_of ''carbs_g'', PFloat (Fin 0)),
                                   (str_of ''fat_g'', PFloat (Fin 0)),
                                   (str_of ''source'', PStr (str_of ''calorieninjas''))]),
                      [PrimaryApi])"
    by (simp add: try_calorieninjas_def environ_get_def all_keys_def py_or_def
        zero_calorie_service_def calorieninjas_items_def zero)
  have nonempty: "str_of ''water'' \<noteq> []" by (simp add: str_of_def)
  have chain: "lookup_nutrition_text no_numeric_text lower_ascii all_keys zero_calorie_service
                 local_table (PStr (str_of ''water''))
               = (Inr (PDict [(str_of ''kcal'', PFloat (Fin 0)),
                              (str_of ''protein_g'', PFloat (Fin 0)),
                              (str_of ''carbs_g'', PFloat (Fin 0)),
                              (str_of ''fat_g'', PFloat (Fin 0)),
                              (str_of ''source'', PStr (str_of ''calorieninjas''))]),
                  [PrimaryApi])"
    using nonempty by (simp add: lookup_nutrition_text_def strip primary)
  have sibling: "lookup_calories_calorieninjas no_numeric_text (PStr (str_of ''k1''))
                   zero_calorie_service (PStr (str_of ''water'')) = PNone"
    using nonempty
    by (simp add: lookup_calories_calorieninjas_def zero_calorie_service_def
        calorieninjas_totals_def py_or_def zero)
  show ?thesis using chain sibling by simp
qed

section \<open>Properties of the meal flags\<close>

lemma meal_inputs_typed:
  assumes "meal ''name'' = Some (PStr n)"
    and "py_float pf (py_or (getattr meal ''calories'' (PInt 0)) (PInt 0)) = Inr x"
  shows "meal_inputs_try pf meal = Inr (py_strip n, x)"
proof (cases "n = []")
  case True
  then show ?thesis using assms by (simp add: meal_inputs_try_def attr_def py_or_def py_strip_def)
next
  case False
  then show ?thesis using assms by (simp add: meal_inputs_try_def attr_def py_or_def)
qed

lemma flags_of_inputs:
  "meal_inputs_try pf meal = Inr (py_strip n, x) \<Longrightarrow> compute_flags_for_meal pf meal = spec_flag n x"
  by (simp add: compute_flags_for_meal_def spec_flag_def py_strip_blank)

lemma flags_on_failure:
  "meal_inputs_try pf meal = Inl e \<Longrightarrow> compute_flags_for_meal pf meal = (True, ''Missing meal name'')"
  by (simp add: compute_flags_for_meal_def)

lemma flags_without_name:
  assumes "meal ''name'' = Some v" "\<not> truthy v"
  shows "compute_flags_for_meal pf meal = (True, ''Missing meal name'')"
proof (cases "meal_inputs_try pf meal")
  case (Inl e)
  then show ?thesis by (rule flags_on_failure)
next
  case (Inr nc)
  then have "fst nc = []"
    using assms
    by (auto simp add: meal_inputs_try_def attr_def py_or_def py_strip_def split: sum.splits)
  then show ?thesis using Inr by (cases nc) (simp add: compute_flags_for_meal_def)
qed

lemma flag_example:
  assumes "float_of_int c = Inr (Fin (of_int c))"
  shows "compute_flags_for_meal pf (map_of [(''name'', PStr n), (''calories'', PInt c)])
           = spec_flag n (Fin (of_int c))"
proof -
  have "py_float pf (py_or (getattr (map_of [(''name'', PStr n), (''calories'', PInt c)])
            ''calories'' (PInt 0)) (PInt 0)) = Inr (Fin (of_int c))"
    using assms by (simp add: getattr_def py_or_def float_of_int_def)
  then have "meal_inputs_try pf (map_of [(''name'', PStr n), (''calories'', PInt c)])
               = Inr (py_strip n, Fin (of_int c))"
    by (intro meal_inputs_typed) simp_all
  then show ?thesis by (rule flags_of_inputs)
qed

text \<open>
  Claim C6. On a meal with a text name the flag is the one of the rules, first match
  wins, applied to the name and to the calories as \<^verbatim>\<open>float\<close> converts them (0 when they are
  missing or falsy): blank name, then calories at most 0, then calories above 2000,
  else not flagged. A name that is missing as a value gives the first rule. When a
  conversion of the inputs fails (no name attribute, a name that is not text, calories
  that \<^verbatim>\<open>float\<close> rejects) the meal is flagged for its missing name. The four documented
  examples follow, then names of whitespace only and calories beyond the range of a
  float.
\<close>

theorem flag_rules:
  "(\<forall>n c x. meal ''name'' = Some (PStr n) \<and> meal ''calories'' = Some c \<and> truthy c
        \<and> py_float pf c = Inr x
       \<longrightarrow> compute_flags_for_meal pf meal = spec_flag n x)
   \<and> (\<forall>n. meal ''name'' = Some (PStr n)
        \<and> (meal ''calories'' = None \<or> (\<exists>c. meal ''calories'' = Some c \<and> \<not> truthy c))
       \<longrightarrow> compute_flags_for_meal pf meal = spec_flag n (Fin 0))
   \<and> ((\<exists>v. meal ''name'' = Some v \<and> \<not> truthy v)
       \<longrightarrow> compute_flags_for_meal pf meal = (True, ''Missing meal name''))
   \<and> (meal ''name'' = None
        \<or> (\<exists>v. meal ''name'' = Some v \<and> truthy v \<and> (\<forall>s. v \<noteq> PStr s))
        \<or> (\<exists>c e. meal ''calories'' = Some c \<and> truthy c \<and> py_float pf c = Inl e)
       \<longrightarrow> compute_flags_for_meal pf meal = (True, ''Missing meal name''))
   \<and> compute_flags_for_meal pf (map_of [(''name'', PStr []), (''calories'', PInt 500)])
       = (True, ''Missing meal name'')
   \<and> compute_flags_for_meal pf
         (map_of [(''name'', PStr (str_of ''Apple'')), (''calories'', PInt 0)])
       = (True, ''Calories missing or zero'')
   \<and> compute_flags_for_meal pf
         (map_of [(''name'', PStr (str_of ''Burger'')), (''calories'', PInt 2500)])
       = (True, ''Unusually high calories'')
   \<and> compute_flags_for_meal pf
         (map_of [(''name'', PStr (str_of ''Salad'')), (''calories'', PInt 350)])
       = (False, [])
   \<and> compute_flags_for_meal pf
         (map_of [(''name'', PStr [0x20, 0x09, 0x20]), (''calories'', PInt 500)])
       = (True, ''Missing meal name'')
   \<and> compute_flags_for_meal pf
         (map_of [(''name'', PStr [0xA0, 0x3000]), (''calories'', PInt 500)])
       = (True, ''Missing meal name'')
   \<and> compute_flags_for_meal pf
         (map_of [(''name'', PStr (str_of ''Burger'')), (''calories'', PInt (10 ^ 400))])
       = (True, ''Missing meal name'')"
proof -
  have rules: "compute_flags_for_meal pf meal = spec_flag n x"
    if "meal ''name'' = Some (PStr n) \<and> meal ''calories'' = Some c \<and> truthy c
          \<and> py_float pf c = Inr x"
    for n c x
  proof -
    have "py_float pf (py_or (getattr meal ''calories'' (PInt 0)) (PInt 0)) = Inr x"
      using that by (simp add: getattr_def py_or_def)
    then have "meal_inputs_try pf meal = Inr (py_strip n, x)"
      using that by (intro meal_inputs_typed) simp_all
    then show ?thesis by (rule flags_of_inputs)
  qed
  have defaulted: "compute_flags_for_meal pf meal = spec_flag n (Fin 0)"
    if "meal ''name'' = Some (PStr n)
          \<and> (meal ''calories'' = None \<or> (\<exists>c. meal ''calories'' = Some c \<and> \<not> truthy c))"
    for n
  proof -
    have "py_float pf (py_or (getattr meal ''calories'' (PInt 0)) (PInt 0)) = Inr (Fin 0)"
      using that by (auto simp add: getattr_def py_or_def float_of_int_def)
    then have "meal_inputs_try pf meal = Inr (py_strip n, Fin 0)"
      using that by (intro meal_inputs_typed) simp_all
    then show ?thesis by (rule flags_of_inputs)
  qed
  have unnamed: "compute_flags_for_meal pf meal = (True, ''Missing meal name'')"
    if "\<exists>v. meal ''name'' = Some v \<and> \<not> truthy v"
    using that flags_without_name [of meal _ pf] by blast
  have failing: "compute_flags_for_meal pf meal = (True, ''Missing meal name'')"
    if "meal ''name'' = None
        \<or> (\<exists>v. meal ''name'' = Some v \<and> truthy v \<and> (\<forall>s. v \<noteq> PStr s))
        \<or> (\<exists>c e. meal ''calories'' = Some c \<and> truthy c \<and> py_float pf c = Inl e)"
    using that
  proof (elim disjE exE conjE)
    assume "meal ''name'' = None"
    then have "meal_inputs_try pf meal = Inl AttributeError"
      by (simp add: meal_inputs_try_def attr_def)
    then show ?thesis by (rule flags_on_failure)
  next
    fix v
    assume "meal ''name'' = Some v" "truthy v" "\<forall>s. v \<noteq> PStr s"
    then have "meal_inputs_try pf meal = Inl AttributeError"
      by (cases v) (simp_all add: meal_inputs_try_def attr_def py_or_def)
    then show ?thesis by (rule flags_on_failure)
  next
    fix c e
    assume "meal ''calories'' = Some c" "truthy c" "py_float pf c = Inl e"
    then have conv: "py_float pf (py_or (getattr meal ''calories'' (PInt 0)) (PInt 0)) = Inl e"
      by (simp add: getattr_def py_or_def)
    show ?thesis
    proof (cases "meal_inputs_try pf meal")
      case (Inl a)
      then show ?thesis by (rule flags_on_failure)
    next
      case (Inr nc)
      then have False using conv
        by (auto simp add: meal_inputs_try_def split: sum.splits pyval.splits)
      then show ?thesis ..
    qed
  qed
  have small: "float_of_int 500 = Inr (Fin (of_int 500))" "float_of_int 0 = Inr (Fin (of_int 0))"
    "float_of_int 2500 = Inr (Fin (of_int 2500))" "float_of_int 350 = Inr (Fin (of_int 350))"
    by (simp_all add: float_of_int_def)
  have ex1: "compute_flags_for_meal pf (map_of [(''name'', PStr []), (''calories'', PInt 500)])
       = (True, ''Missing meal name'')"
    using flag_example [OF small(1), of pf "[]"] by (simp add: spec_flag_def)
  have apple: "\<not> list_all py_isspace (str_of ''Apple'')"
    and burger: "\<not> list_all py_isspace (str_of ''Burger'')"
    and salad: "\<not> list_all py_isspace (str_of ''Salad'')"
    by (simp_all add: str_of_def py_isspace_def whitespace_def)
  have ex2: "compute_flags_for_meal pf
         (map_of [(''name'', PStr (str_of ''Apple'')), (''calories'', PInt 0)])
       = (True, ''Calories missing or zero'')"
    using flag_example [OF small(2), of pf "str_of ''Apple''"] apple by (simp add: spec_flag_def)
  have ex3: "compute_flags_for_meal pf
         (map_of [(''name'', PStr (str_of ''Burger'')), (''calories'', PInt 2500)])
       = (True, ''Unusually high calories'')"
    using flag_example [OF small(3), of pf "str_of ''Burger''"] burger
    by (simp add: spec_flag_def)
  have ex4: "compute_flags_for_meal pf
         (map_of [(''name'', PStr (str_of ''Salad'')), (''calories'', PInt 350)])
       = (False, [])"
    using flag_example [OF small(4), of pf "str_of ''Salad''"] salad by (simp add: spec_flag_def)
  have ex5: "compute_flags_for_meal pf
         (map_of [(''name'', PStr [0x20, 0x09, 0x20]), (''calories'', PInt 500)])
       = (True, ''Missing meal name'')"
    using flag_example [OF small(1), of pf "[0x20, 0x09, 0x20]"]
    by (simp add: spec_flag_def py_isspace_def whitespace_def)
  have ex6: "compute_flags_for_meal pf
         (map_of [(''name'', PStr [0xA0, 0x3000]), (''calories'', PInt 500)])
       = (True, ''Missing meal name'')"
    using flag_example [OF small(1), of pf "[0xA0, 0x3000]"]
    by (simp add: spec_flag_def py_isspace_def whitespace_def)
  have "meal_inputs_try pf
          (map_of [(''name'', PStr (str_of ''Burger'')), (''calories'', PInt (10 ^ 400))])
        = Inl OverflowError"
    by (simp add: meal_inputs_try_def attr_def getattr_def py_or_def float_of_int_def)
  then have ex7: "compute_flags_for_meal pf
         (map_of [(''name'', PStr (str_of ''Burger'')), (''calories'', PInt (10 ^ 400))])
       = (True, ''Missing meal name'')"
    by (rule flags_on_failure)
  from ex1 ex2 ex3 ex4 ex5 ex6 ex7 show ?thesis
    apply (intro conjI allI impI)
              apply (erule rules)
             apply (erule defaulted)
            apply (erule unnamed)
           apply (erule failing)
          apply assumption+
    done
qed

theorem flag_rules_witness:
  "compute_flags_for_meal no_numeric_text
       (map_of [(''name'', PStr (str_of ''  Paneer tikka '')), (''calories'', PFloat (Fin 2000))])
     = spec_flag (str_of ''  Paneer tikka '') (Fin 2000)
   \<and> spec_flag (str_of ''  Paneer tikka '') (Fin 2000) = (False, [])
   \<and> compute_flags_for_meal no_numeric_text
       (map_of [(''name'', PStr [0x2003, 0x85]), (''calories'', PFloat (Fin 450))])
     = spec_flag [0x2003, 0x85] (Fin 450)
   \<and> spec_flag [0x2003, 0x85] (Fin 450) = (True, ''Missing meal name'')
   \<and> compute_flags_for_meal no_numeric_text (map_of [(''name'', PStr (str_of ''Dal''))])
     = spec_flag (str_of ''Dal'') (Fin 0)
   \<and> spec_flag (str_of ''Dal'') (Fin 0) = (True, ''Calories missing or zero'')
   \<and> compute_flags_for_meal no_numeric_text
       (map_of [(''name'', PNone), (''calories'', PInt 300)])
     = (True, ''Missing meal name'')
   \<and> compute_flags_for_meal no_numeric_text
       (map_of [(''name'', PStr (str_of ''Dal'')), (''calories'', PStr (str_of ''lots''))])
     = (True, ''Missing meal name'')
   \<and> compute_flags_for_meal no_numeric_text (map_of [(''calories'', PInt 300)])
     = (True, ''Missing meal name'')"
proof -
  let ?m1 = "map_of [(''name'', PStr (str_of ''  Paneer tikka '')),
                     (''calories'', PFloat (Fin 2000))]"
  let ?m2 = "map_of [(''name'', PStr [0x2003, 0x85]), (''calories'', PFloat (Fin 450))]"
  let ?m3 = "map_of [(''name'', PStr (str_of ''Dal''))]"
  let ?m4 = "map_of [(''name'', PNone), (''calories'', PInt 300)]"
  let ?m5 = "map_of [(''name'', PStr (str_of ''Dal'')), (''calories'', PStr (str_of ''lots''))]"
  let ?m6 = "map_of [(''calories'', PInt 300)] :: pyobj"
  have "compute_flags_for_meal no_numeric_text ?m1 = spec_flag (str_of ''  Paneer tikka '') (Fin 2000)"
    using flag_rules [of ?m1 no_numeric_text, THEN conjunct1, rule_format,
        of "str_of ''  Paneer tikka ''" "PFloat (Fin 2000)" "Fin 2000"]
    by simp
  moreover have "spec_flag (str_of ''  Paneer tikka '') (Fin 2000) = (False, [])"
    by (simp add: spec_flag_def str_of_def py_isspace_def whitespace_def)
  moreover have "compute_flags_for_meal no_numeric_text ?m2 = spec_flag [0x2003, 0x85] (Fin 450)"
    using flag_rules [of ?m2 no_numeric_text, THEN conjunct1, rule_format,
        of "[0x2003, 0x85]" "PFloat (Fin 450)" "Fin 450"]
    by simp
  moreover have "spec_flag [0x2003, 0x85] (Fin 450) = (True, ''Missing meal name'')"
    by (simp add: spec_flag_def py_isspace_def whitespace_def)
  moreover have "compute_flags_for_meal no_numeric_text ?m3 = spec_flag (str_of ''Dal'') (Fin 0)"
    using flag_rules [of ?m3 no_numeric_text, THEN conjunct2, THEN conjunct1, rule_format,
        of "str_of ''Dal''"]
    by simp
  moreover have "spec_flag (str_of ''Dal'') (Fin 0) = (True, ''Calories missing or zero'')"
    by (simp add: spec_flag_def str_of_def py_isspace_def whitespace_def)
  moreover have "compute_flags_for_meal no_numeric_text ?m4 = (True, ''Missing meal name'')"
    using flag_rules [of ?m4 no_numeric_text, THEN conjunct2, THEN conjunct2, THEN conjunct1]
    by simp
  moreover have "compute_flags_for_meal no_numeric_text ?m5 = (True, ''Missing meal name'')"
    using flag_rules [of ?m5 no_numeric_text, THEN conjunct2, THEN conjunct2, THEN conjunct2,
        THEN conjunct1]
    by (simp add: no_numeric_text_def)
  moreover have "compute_flags_for_meal no_numeric_text ?m6 = (True, ''Missing meal name'')"
    using flag_rules [of ?m6 no_numeric_text, THEN conjunct2, THEN conjunct2, THEN conjunct2,
        THEN conjunct1]
    by simp
  ultimately show ?thesis by simp
qed

end
